theory Spec2Isabelle
  imports Main "HOL-Library.Word"
begin

section \<open>Hex encoder (convert.py line 44, wav\_table\_gen\_v1.py line 53)\<close>

text \<open>
  The bytes returned by \<open>readframes\<close> are a Python \<open>bytes\<close> object; iterating it
  yields integers in \<open>0..255\<close>, modelled as 8-bit words.  The format specification
  \<open>02X\<close> prints an integer in base 16 with upper-case digits, padded on the left with
  zeros to a width of at least two.
\<close>

type_synonym byte = "8 word"

definition hex_digit :: "nat \<Rightarrow> char" where
  "hex_digit d = ''0123456789ABCDEF'' ! d"

fun to_hex_upper :: "nat \<Rightarrow> string" where
  "to_hex_upper n =
     (if n < 16 then [hex_digit n] else to_hex_upper (n div 16) @ [hex_digit (n mod 16)])"

declare to_hex_upper.simps [simp del]

definition zero_pad :: "nat \<Rightarrow> string \<Rightarrow> string" where
  "zero_pad w s = replicate (w - length s) (CHR ''0'') @ s"

definition format_02X :: "nat \<Rightarrow> string" where
  "format_02X n = zero_pad 2 (to_hex_upper n)"

definition format_byte :: "byte \<Rightarrow> string" where
  "format_byte b = ''0x'' @ format_02X (unat b)"

fun join :: "string \<Rightarrow> string list \<Rightarrow> string" where
  "join sep [] = []"
| "join sep [x] = x"
| "join sep (x # y # ys) = x @ sep @ join sep (y # ys)"

definition hex_line :: "byte list \<Rightarrow> string" where
  "hex_line raw_bytes = join '','' (map format_byte raw_bytes)"

definition is_upper_hex :: "char \<Rightarrow> bool" where
  "is_upper_hex c = (c \<in> set ''0123456789ABCDEF'')"


section \<open>The WAV reader interface\<close>

text \<open>
  Both converters see an input file only through Python's \<open>wave\<close> module.  An opened
  reader exposes the header fields read by \<open>getnchannels\<close>, \<open>getsampwidth\<close> and
  \<open>getframerate\<close> (unsigned header fields, hence naturals) and the bytes of the data
  chunk; \<open>getcomptype\<close> is \<open>'NONE'\<close> for every reader.  The module computes the frame
  count as the chunk size divided by the frame size, and \<open>readframes n\<close> returns the
  empty buffer for \<open>n = 0\<close> and otherwise asks the chunk for \<open>n * framesize\<close> bytes;
  the chunk hands out at most what it holds, and all of it when the requested size is
  negative.
\<close>

record wave_read =
  nchannels :: nat
  sampwidth :: nat
  framerate :: nat
  chunk :: "byte list"

definition getcomptype :: "wave_read \<Rightarrow> string" where
  "getcomptype w = ''NONE''"

definition framesize :: "wave_read \<Rightarrow> nat" where
  "framesize w = nchannels w * sampwidth w"

definition getnframes :: "wave_read \<Rightarrow> nat" where
  "getnframes w = length (chunk w) div framesize w"

definition readframes :: "wave_read \<Rightarrow> int \<Rightarrow> byte list" where
  "readframes w n =
     (if n = 0 then []
      else if n * int (framesize w) < 0 then chunk w
      else take (nat (n * int (framesize w))) (chunk w))"

text \<open>
  The format chunk of a RIFF/WAVE container, with the data chunk.  \<open>wave.open\<close>
  (as of Python 3.11) raises \<open>wave.Error\<close> unless the format tag is 1 (uncompressed
  PCM), the sample width \<open>(bits + 7) // 8\<close> is not zero and the channel count is not
  zero, in this order; otherwise it returns the reader.
\<close>

record riff_wave =
  format_tag :: nat
  channels :: nat
  samples_per_sec :: nat
  bits_per_sample :: nat
  riff_data :: "byte list"

definition wave_open :: "riff_wave \<Rightarrow> string + wave_read" where
  "wave_open c =
     (if format_tag c \<noteq> 1 then Inl ''unknown format''
      else if (bits_per_sample c + 7) div 8 = 0 then Inl ''bad sample width''
      else if channels c = 0 then Inl ''bad # of channels''
      else Inr \<lparr>nchannels = channels c, sampwidth = (bits_per_sample c + 7) div 8,
                framerate = samples_per_sec c, chunk = riff_data c\<rparr>)"

section \<open>Files, paths and the console\<close>

text \<open>
  A file is a RIFF/WAVE container that \<open>wave.open\<close> accepts (given by the reader it
  returns), a RIFF/WAVE container that \<open>wave.open\<close> rejects (given by the message of
  the error), or anything else (given by its text), on which \<open>wave.open\<close> raises as
  well.  The text written by the converters is of the third kind: a hex listing never
  starts with a RIFF header.  \<open>riff_file\<close> is the file that holds a given container.
  The file system maps a path to the file stored there; \<open>Path.exists\<close> is
  definedness.  Directory creation and \<open>write_text\<close> are taken to succeed.

  Paths are kept abstract.  The three operations of \<open>pathlib\<close> that the converters
  use are parameters: \<open>in_path.with_suffix(".txt")\<close>, \<open>output_dir / p.name\<close> and the
  test \<open>p.suffix.lower() != ".wav"\<close>.
\<close>

datatype stored_file = WavFile wave_read | Rejected string | NonWav string

definition riff_file :: "riff_wave \<Rightarrow> stored_file" where
  "riff_file c = (case wave_open c of Inl e \<Rightarrow> Rejected e | Inr w \<Rightarrow> WavFile w)"

type_synonym 'p filesystem = "'p \<Rightarrow> stored_file option"

record 'p pathlib =
  with_suffix_txt :: "'p \<Rightarrow> 'p"
  in_dir :: "'p \<Rightarrow> 'p \<Rightarrow> 'p"
  lacks_wav_suffix :: "'p \<Rightarrow> bool"

datatype channel = Stdout | Stderr | ErrorDialog | InfoDialog

datatype 'p message =
    FileNotFound 'p
  | StereoNotSupported
  | Only16BitPCM
  | CompressedNotSupported
  | ErrorProcessing 'p
  | UnexpectedError 'p
  | TooManyFiles nat nat
  | NoWavExtension 'p
  | Processed 'p
  | SampleRate nat
  | Duration int nat
  | Bytes nat
  | Wrote nat nat 'p
  | SuccessfullyProcessed nat
  | CancelledByUser
  | Traceback

record 'p world =
  fs :: "'p filesystem"
  console :: "(channel \<times> 'p message) list"

definition emit :: "channel \<Rightarrow> 'p message \<Rightarrow> 'p world \<Rightarrow> 'p world" where
  "emit c m s = s\<lparr>console := console s @ [(c, m)]\<rparr>"

definition write_text :: "'p \<Rightarrow> string \<Rightarrow> 'p world \<Rightarrow> 'p world" where
  "write_text p t s = s\<lparr>fs := (fs s)(p \<mapsto> NonWav t)\<rparr>"

text \<open>
  A run either ends the process with an exit status (\<open>sys.exit\<close>, or an uncaught
  exception, which Python turns into status 1) or returns normally.
\<close>

type_synonym 'p outcome = "(int \<times> 'p world) + 'p world"

section \<open>The command-line converter (convert.py)\<close>

definition MAX_FILES :: nat where
  "MAX_FILES = 18"

definition MAX_SECONDS :: int where
  "MAX_SECONDS = 20"

definition frames_to_read :: "wave_read \<Rightarrow> int \<Rightarrow> int" where
  "frames_to_read w max_seconds = min (int (framerate w) * max_seconds) (int (getnframes w))"

definition cli_out_path :: "'p pathlib \<Rightarrow> 'p \<Rightarrow> 'p option \<Rightarrow> 'p" where
  "cli_out_path ops in_path output_dir =
     (case output_dir of
        Some d \<Rightarrow> in_dir ops d (with_suffix_txt ops in_path)
      | None \<Rightarrow> with_suffix_txt ops in_path)"

text \<open>
  Whatever \<open>wave.open\<close> raises is caught by one of the two handlers of \<open>process_file\<close>;
  both print a message naming the file and exit with status 1, and \<open>ErrorProcessing\<close>
  stands for either message.

  The verbose report prints the duration as \<open>frames / rate\<close>; with a frame rate of
  zero this raises \<open>ZeroDivisionError\<close> after the first two lines were printed, which
  the generic handler turns into an error message and exit status 1.
\<close>

definition cli_report :: "'p \<Rightarrow> 'p \<Rightarrow> bool \<Rightarrow> nat \<Rightarrow> int \<Rightarrow> byte list \<Rightarrow> string
    \<Rightarrow> 'p world \<Rightarrow> 'p outcome" where
  "cli_report in_path out_path verbose rate frames raw_bytes hexl s =
     (if verbose then
        (let s1 = emit Stdout (SampleRate rate) (emit Stdout (Processed in_path) s) in
         if rate = 0 then Inl (1, emit Stderr (UnexpectedError in_path) s1)
         else Inr (emit Stdout (Wrote (length raw_bytes) (length hexl) out_path)
                (emit Stdout (Bytes (length raw_bytes))
                  (emit Stdout (Duration frames rate) s1))))
      else Inr (emit Stdout (Wrote (length raw_bytes) (length hexl) out_path) s))"

definition cli_process_file :: "'p pathlib \<Rightarrow> 'p \<Rightarrow> 'p option \<Rightarrow> bool \<Rightarrow> int
    \<Rightarrow> 'p world \<Rightarrow> 'p outcome" where
  "cli_process_file ops in_path output_dir verbose max_seconds s =
     (case fs s in_path of
        None \<Rightarrow> Inl (1, emit Stderr (FileNotFound in_path) s)
      | Some (NonWav t) \<Rightarrow> Inl (1, emit Stderr (ErrorProcessing in_path) s)
      | Some (Rejected e) \<Rightarrow> Inl (1, emit Stderr (ErrorProcessing in_path) s)
      | Some (WavFile w) \<Rightarrow>
          if nchannels w \<noteq> 1 then Inl (1, emit Stderr StereoNotSupported s)
          else if sampwidth w \<noteq> 2 then Inl (1, emit Stderr Only16BitPCM s)
          else if getcomptype w \<noteq> ''NONE'' then Inl (1, emit Stderr CompressedNotSupported s)
          else
            (let rate = framerate w;
                 frames = frames_to_read w max_seconds;
                 raw_bytes = readframes w frames;
                 hexl = hex_line raw_bytes;
                 out_path = cli_out_path ops in_path output_dir
             in cli_report in_path out_path verbose rate frames raw_bytes hexl
                  (write_text out_path hexl s)))"

record 'p cli_args =
  files :: "'p list"
  output_dir :: "'p option"
  verbose :: bool
  max_seconds :: int

fun validate_files :: "'p pathlib \<Rightarrow> 'p list \<Rightarrow> 'p world \<Rightarrow> 'p outcome" where
  "validate_files ops [] s = Inr s"
| "validate_files ops (file_path # rest) s =
     (if fs s file_path = None then Inl (1, emit Stderr (FileNotFound file_path) s)
      else if lacks_wav_suffix ops file_path
        then validate_files ops rest (emit Stderr (NoWavExtension file_path) s)
      else validate_files ops rest s)"

fun process_files :: "'p pathlib \<Rightarrow> 'p cli_args \<Rightarrow> 'p list \<Rightarrow> 'p world \<Rightarrow> 'p outcome" where
  "process_files ops args [] s = Inr s"
| "process_files ops args (file_path # rest) s =
     (case cli_process_file ops file_path (output_dir args) (verbose args) (max_seconds args) s of
        Inl e \<Rightarrow> Inl e
      | Inr s' \<Rightarrow> process_files ops args rest s')"

definition cli_main :: "'p pathlib \<Rightarrow> 'p cli_args \<Rightarrow> 'p world \<Rightarrow> 'p outcome" where
  "cli_main ops args s =
     (if length (files args) > MAX_FILES
        then Inl (1, emit Stderr (TooManyFiles (length (files args)) MAX_FILES) s)
      else
        (case validate_files ops (files args) s of
           Inl e \<Rightarrow> Inl e
         | Inr s1 \<Rightarrow>
             (case process_files ops args (files args) s1 of
                Inl e \<Rightarrow> Inl e
              | Inr s2 \<Rightarrow> Inr (emit Stdout (SuccessfullyProcessed (length (files args))) s2))))"

section \<open>The interactive converter (wav\_table\_gen\_v1.py)\<close>

text \<open>
  \<open>bail\<close> shows an error dialog and exits with status 1.  There is no exception
  handler: a file that \<open>wave.open\<close> rejects ends the process with a traceback.  The
  files picked in the dialog are the argument of \<open>gui_main\<close>.
\<close>

definition bail :: "'p message \<Rightarrow> 'p world \<Rightarrow> 'p outcome" where
  "bail msg s = Inl (1, emit ErrorDialog msg s)"

definition gui_process_file :: "'p pathlib \<Rightarrow> 'p \<Rightarrow> 'p world \<Rightarrow> 'p outcome" where
  "gui_process_file ops in_path s =
     (case fs s in_path of
        None \<Rightarrow> bail (FileNotFound in_path) s
      | Some (NonWav t) \<Rightarrow> Inl (1, emit Stderr Traceback s)
      | Some (Rejected e) \<Rightarrow> Inl (1, emit Stderr Traceback s)
      | Some (WavFile w) \<Rightarrow>
          if nchannels w \<noteq> 1 then bail StereoNotSupported s
          else if sampwidth w \<noteq> 2 then bail Only16BitPCM s
          else if getcomptype w \<noteq> ''NONE'' then bail CompressedNotSupported s
          else
            (let frames = frames_to_read w MAX_SECONDS;
                 raw_bytes = readframes w frames;
                 hexl = hex_line raw_bytes;
                 out_path = with_suffix_txt ops in_path
             in Inr (emit InfoDialog (Wrote (length raw_bytes) (length hexl) out_path)
                      (write_text out_path hexl s))))"

fun gui_process_all :: "'p pathlib \<Rightarrow> 'p list \<Rightarrow> 'p world \<Rightarrow> 'p outcome" where
  "gui_process_all ops [] s = Inr s"
| "gui_process_all ops (p # rest) s =
     (case gui_process_file ops p s of
        Inl e \<Rightarrow> Inl e
      | Inr s' \<Rightarrow> gui_process_all ops rest s')"

definition gui_main :: "'p pathlib \<Rightarrow> 'p list \<Rightarrow> 'p world \<Rightarrow> 'p outcome" where
  "gui_main ops in_paths s =
     (if in_paths = [] then Inl (1, emit Stderr CancelledByUser s)
      else if length in_paths > MAX_FILES
        then bail (TooManyFiles (length in_paths) MAX_FILES) s
      else gui_process_all ops in_paths s)"


section \<open>The header splitter (split\_samples.py)\<close>

text \<open>
  Text is a list of characters with code points below 256.  On these, the character
  classes of Python's \<open>re\<close> and \<open>str\<close> are: \<open>\d\<close> the ten ASCII digits; \<open>\s\<close>
  and the characters removed by \<open>strip()\<close> the code points 9 to 13, 28 to 32, 133
  and 160; \<open>lower()\<close> moves A to Z and the accented capitals 192 to 222 (except 215)
  up by 32.
\<close>

definition is_digit :: "char \<Rightarrow> bool" where
  "is_digit c = (c \<in> set ''0123456789'')"

definition is_space :: "char \<Rightarrow> bool" where
  "is_space c = (let n = (of_char c :: nat)
                 in (9 \<le> n \<and> n \<le> 13) \<or> (28 \<le> n \<and> n \<le> 32) \<or> n = 133 \<or> n = 160)"

definition lower_char :: "char \<Rightarrow> char" where
  "lower_char c = (let n = (of_char c :: nat)
                   in if (65 \<le> n \<and> n \<le> 90) \<or> (192 \<le> n \<and> n \<le> 222 \<and> n \<noteq> 215)
                      then char_of (n + 32) else c)"

definition lower :: "string \<Rightarrow> string" where
  "lower s = map lower_char s"

text \<open>
  \<open>upper()\<close> is only applied to array names, which the pattern restricts to the
  word \<open>sample\<close> followed by digits.
\<close>

definition upper_char :: "char \<Rightarrow> char" where
  "upper_char c = (let n = (of_char c :: nat)
                   in if 97 \<le> n \<and> n \<le> 122 then char_of (n - 32) else c)"

definition upper :: "string \<Rightarrow> string" where
  "upper s = map upper_char s"

definition strip :: "string \<Rightarrow> string" where
  "strip s = rev (dropWhile is_space (rev (dropWhile is_space s)))"

fun literal :: "string \<Rightarrow> string \<Rightarrow> string option" where
  "literal [] s = Some s"
| "literal (p # ps) [] = None"
| "literal (p # ps) (c # cs) = (if p = c then literal ps cs else None)"

fun contains :: "string \<Rightarrow> string \<Rightarrow> bool" where
  "contains sub [] = (sub = [])"
| "contains sub (c # cs) = (literal sub (c # cs) \<noteq> None \<or> contains sub cs)"

text \<open>
  The pattern \<open>const uint8_t (sample\d+)\[\] PROGMEM = \{([^}]+)\};\<close> matched at the
  start of a text.  Both repetitions are greedy and each is followed by a character
  outside its class, so only the longest run can lead to a match.  The result is the
  two groups and the text after the match.
\<close>

definition match_array :: "string \<Rightarrow> (string \<times> string \<times> string) option" where
  "match_array s =
     (case literal ''const uint8_t sample'' s of
        None \<Rightarrow> None
      | Some s1 \<Rightarrow>
          let digits = takeWhile is_digit s1 in
          if digits = [] then None
          else
            (case literal ''[] PROGMEM = {'' (dropWhile is_digit s1) of
               None \<Rightarrow> None
             | Some s2 \<Rightarrow>
                 let body = takeWhile (\<lambda>c. c \<noteq> CHR ''}'') s2 in
                 if body = [] then None
                 else
                   (case literal ''};'' (dropWhile (\<lambda>c. c \<noteq> CHR ''}'') s2) of
                      None \<Rightarrow> None
                    | Some rest \<Rightarrow> Some (''sample'' @ digits, body, rest))))"

text \<open>\<open>re.findall\<close>: the matches from left to right, each search starting where the
  previous match ended.\<close>

function findall :: "string \<Rightarrow> (string \<times> string) list" where
  "findall [] = []"
| "findall (c # cs) =
     (case match_array (c # cs) of
        Some (sample_name, sample_data, rest) \<Rightarrow> (sample_name, sample_data) # findall rest
      | None \<Rightarrow> findall cs)"
  by pat_completeness auto
termination
proof (relation "measure length")
  show "wf (measure length)" by simp
next
  fix c :: char and cs :: string and x2 sample_name y sample_data rest
  assume m: "match_array (c # cs) = Some x2" and x2: "(sample_name, y) = x2" and y: "(sample_data, rest) = y"
  have lit: "\<And>p s r. literal p s = Some r \<Longrightarrow> length r \<le> length s"
  proof -
    fix p s r show "literal p s = Some r \<Longrightarrow> length r \<le> length s"
      by (induction p s rule: literal.induct) (auto split: if_splits)
  qed
  have dw: "\<And>P (xs :: string). length (dropWhile P xs) \<le> length xs"
    by (simp add: length_dropWhile_le)
  from m x2 [symmetric] y [symmetric]
  obtain s1 s2 where
    a: "literal ''const uint8_t sample'' (c # cs) = Some s1" and
    b: "literal ''[] PROGMEM = {'' (dropWhile is_digit s1) = Some s2" and
    c: "literal ''};'' (dropWhile (\<lambda>c. c \<noteq> CHR ''}'') s2) = Some rest"
    by (auto simp: match_array_def Let_def split: option.splits if_splits)
  from a have "length s1 < length (c # cs)"
    by (auto split: if_splits dest!: lit)
  moreover from b have "length s2 \<le> length s1"
    using lit [OF b] dw [of is_digit s1] by simp
  moreover from c have "length rest \<le> length s2"
    using lit [OF c] dw [of "\<lambda>c. c \<noteq> CHR ''}''" s2] by simp
  ultimately show "(rest, c # cs) \<in> measure length" by simp
next
  fix c :: char and cs :: string
  show "(cs, c # cs) \<in> measure length" by simp
qed

text \<open>
  \<open>re.sub(r'/\*[^*]*\*/', '', sample_data)\<close>: a comment opener followed by characters
  other than the star and then by the closer is deleted; the scan continues after it.
\<close>

definition match_comment :: "string \<Rightarrow> string option" where
  "match_comment s =
     (case literal ''/*'' s of
        None \<Rightarrow> None
      | Some s1 \<Rightarrow> literal ''*/'' (dropWhile (\<lambda>c. c \<noteq> CHR ''*'') s1))"

function remove_comments :: "string \<Rightarrow> string" where
  "remove_comments [] = []"
| "remove_comments (c # cs) =
     (case match_comment (c # cs) of
        Some rest \<Rightarrow> remove_comments rest
      | None \<Rightarrow> c # remove_comments cs)"
  by pat_completeness auto
termination
proof (relation "measure length")
  show "wf (measure length)" by simp
next
  fix c :: char and cs :: string and rest
  assume m: "match_comment (c # cs) = Some rest"
  have lit: "\<And>p s r. literal p s = Some r \<Longrightarrow> length r \<le> length s"
  proof -
    fix p s r show "literal p s = Some r \<Longrightarrow> length r \<le> length s"
      by (induction p s rule: literal.induct) (auto split: if_splits)
  qed
  from m obtain s1 where
    a: "literal ''/*'' (c # cs) = Some s1" and
    b: "literal ''*/'' (dropWhile (\<lambda>c. c \<noteq> CHR ''*'') s1) = Some rest"
    by (auto simp: match_comment_def split: option.splits)
  from a have "length s1 < length (c # cs)"
    by (auto split: if_splits dest!: lit)
  moreover have "length rest \<le> length s1"
    using lit [OF b] length_dropWhile_le [of "\<lambda>c. c \<noteq> CHR ''*''" s1] by simp
  ultimately show "(rest, c # cs) \<in> measure length" by simp
next
  fix c :: char and cs :: string
  show "(cs, c # cs) \<in> measure length" by simp
qed

text \<open>\<open>re.sub(r'\s+', ' ', ...)\<close>: every maximal run of white space becomes one blank.\<close>

function collapse_space :: "string \<Rightarrow> string" where
  "collapse_space [] = []"
| "collapse_space (c # cs) =
     (if is_space c then CHR '' '' # collapse_space (dropWhile is_space cs)
      else c # collapse_space cs)"
  by pat_completeness auto
termination
  by (relation "measure length") (auto simp: length_dropWhile_le less_Suc_eq_le)

definition clean :: "string \<Rightarrow> string" where
  "clean sample_data = collapse_space (strip (remove_comments sample_data))"

definition is_skipped :: "string \<Rightarrow> bool" where
  "is_skipped cleaned_data =
     (cleaned_data = [] \<or> strip cleaned_data = [] \<or> contains ''placeholder'' (lower cleaned_data))"

text \<open>\<open>cleaned_data.split(', ')\<close>, with the piece collected so far in reverse.\<close>

fun split_comma_space :: "string \<Rightarrow> string \<Rightarrow> string list" where
  "split_comma_space acc [] = [rev acc]"
| "split_comma_space acc [c] = [rev (c # acc)]"
| "split_comma_space acc (c # d # cs) =
     (if c = CHR '','' \<and> d = CHR '' '' then rev acc # split_comma_space [] cs
      else split_comma_space (c # acc) (d # cs))"

definition newline :: string where
  "newline = [CHR 0x0A]"

definition dquote :: string where
  "dquote = [CHR 0x22]"

text \<open>The loop over \<open>range(0, len(hex_values), 16)\<close>, started at \<open>i\<close>.\<close>

function format_lines :: "nat \<Rightarrow> string list \<Rightarrow> string list" where
  "format_lines i hex_values =
     (if i < length hex_values then
        (''    '' @ join '', '' (take 16 (drop i hex_values))
           @ (if i + 16 < length hex_values then '','' else []))
        # format_lines (i + 16) hex_values
      else [])"
  by pat_completeness auto
termination
  by (relation "measure (\<lambda>(i, hex_values). length hex_values - i)") auto

declare format_lines.simps [simp del]

definition formatted_data :: "string \<Rightarrow> string" where
  "formatted_data cleaned_data = join newline (format_lines 0 (split_comma_space [] cleaned_data))"

definition header_content :: "string \<Rightarrow> string \<Rightarrow> string" where
  "header_content sample_name data =
     ''#ifndef '' @ upper sample_name @ ''_H'' @ newline
     @ ''#define '' @ upper sample_name @ ''_H'' @ newline
     @ newline
     @ ''#include <pgmspace.h>'' @ newline
     @ newline
     @ ''// Sample data for '' @ sample_name @ newline
     @ ''const uint8_t '' @ sample_name @ ''[] PROGMEM = {'' @ newline
     @ data @ newline
     @ ''};'' @ newline
     @ newline
     @ ''// Sample length in 16-bit units'' @ newline
     @ ''#define '' @ upper sample_name @ ''_LEN ((uint32_t)(sizeof('' @ sample_name @ '') / 2))''
     @ newline
     @ newline
     @ ''#endif // '' @ upper sample_name @ ''_H'' @ newline"

datatype notice =
    FoundArrays nat
  | SkippingEmpty string
  | Created string
  | CreatedMaster string

text \<open>
  The state of the extraction: the names kept so far, the files written into the
  output directory (name and content, in the order written) and the lines printed.
\<close>

record extraction =
  valid_samples :: "string list"
  written :: "(string \<times> string) list"
  printed :: "notice list"

fun extract_loop :: "(string \<times> string) list \<Rightarrow> extraction \<Rightarrow> extraction" where
  "extract_loop [] st = st"
| "extract_loop ((sample_name, sample_data) # rest) st =
     (let cleaned_data = clean sample_data in
      if is_skipped cleaned_data
        then extract_loop rest (st\<lparr>printed := printed st @ [SkippingEmpty sample_name]\<rparr>)
      else extract_loop rest
        (st\<lparr>valid_samples := valid_samples st @ [sample_name],
            written := written st
              @ [(sample_name @ ''.h'', header_content sample_name (formatted_data cleaned_data))],
            printed := printed st @ [Created (sample_name @ ''.h'')]\<rparr>))"

text \<open>The three loops that build the master include file.\<close>

definition include_lines :: "string list \<Rightarrow> string" where
  "include_lines names = concat (map (\<lambda>n. ''#include '' @ dquote @ n @ ''.h'' @ dquote @ newline) names)"

definition entry_lines :: "(string \<Rightarrow> string) \<Rightarrow> string list \<Rightarrow> string" where
  "entry_lines entry names =
     concat (map (\<lambda>(i, n). ''    '' @ entry n
                    @ (if int i < int (length names) - 1 then '','' else []) @ newline)
                 (enumerate 0 names))"

definition master_content :: "string list \<Rightarrow> string" where
  "master_content names =
     ''#ifndef SAMPLES_H'' @ newline
     @ ''#define SAMPLES_H'' @ newline
     @ newline
     @ ''// Include all individual sample headers'' @ newline
     @ include_lines names
     @ newline
     @ ''// Array of sample pointers for easy access'' @ newline
     @ ''const uint8_t* const samples[] = {'' @ newline
     @ entry_lines (\<lambda>n. n) names
     @ ''};'' @ newline
     @ newline
     @ ''// Array of sample lengths'' @ newline
     @ ''const uint16_t sample_lengths[] = {'' @ newline
     @ entry_lines (\<lambda>n. upper n @ ''_LEN'') names
     @ ''};'' @ newline
     @ newline
     @ ''#define NUM_SAMPLES (sizeof(samples) / sizeof(samples[0]))'' @ newline
     @ newline
     @ ''#endif // SAMPLES_H'' @ newline"

definition extract_samples :: "string \<Rightarrow> extraction" where
  "extract_samples content =
     (let matches = findall content;
          st = extract_loop matches
                 \<lparr>valid_samples = [], written = [], printed = [FoundArrays (length matches)]\<rparr>
      in st\<lparr>written := written st @ [(''samples.h'', master_content (valid_samples st))],
            printed := printed st @ [CreatedMaster ''samples.h'']\<rparr>)"


section \<open>Vocabulary of the properties and example inputs\<close>

text \<open>The three checks of the format validator, and the shape of one listing entry.\<close>

definition mono_16bit_pcm :: "wave_read \<Rightarrow> bool" where
  "mono_16bit_pcm w = (nchannels w = 1 \<and> sampwidth w = 2 \<and> getcomptype w = ''NONE'')"

definition uppercase_0xHH :: "string \<Rightarrow> bool" where
  "uppercase_0xHH e =
     (length e = 4 \<and> e ! 0 = CHR ''0'' \<and> e ! 1 = CHR ''x'' \<and> is_upper_hex (e ! 2) \<and> is_upper_hex (e ! 3))"

text \<open>Entry \<open>i\<close> of a listing: entries are five characters apart (four and a comma).\<close>

definition entry :: "nat \<Rightarrow> string \<Rightarrow> string" where
  "entry i listing = take 4 (drop (5 * i) listing)"

definition world_of :: "'p outcome \<Rightarrow> 'p world" where
  "world_of r = (case r of Inl (status, s) \<Rightarrow> s | Inr s \<Rightarrow> s)"

text \<open>
  Example inputs: plain file names with one dot as paths, a file system given by its
  entries, and well-formed mono 16-bit recordings.
\<close>

definition simple_paths :: "string pathlib" where
  "simple_paths =
     \<lparr>with_suffix_txt = (\<lambda>p. takeWhile (\<lambda>c. c \<noteq> CHR ''.'') p @ ''.txt''),
      in_dir = (\<lambda>d p. d @ ''/'' @ p),
      lacks_wav_suffix = (\<lambda>p. lower (dropWhile (\<lambda>c. c \<noteq> CHR ''.'') p) \<noteq> ''.wav'')\<rparr>"

definition pcm :: "nat \<Rightarrow> byte list \<Rightarrow> wave_read" where
  "pcm rate bytes =
     \<lparr>nchannels = 1, sampwidth = 2, framerate = rate, chunk = bytes\<rparr>"

definition disk :: "(string \<times> stored_file) list \<Rightarrow> string world" where
  "disk entries = \<lparr>fs = map_of entries, console = []\<rparr>"

definition three_frames :: wave_read where
  "three_frames = pcm 1 [0x01, 0x02, 0x03, 0x04, 0x05, 0x06]"

text \<open>Two stereo containers: 8-bit PCM, and 8-bit \<open>mu\<close>-law (format tag 7).\<close>

definition stereo_pcm :: riff_wave where
  "stereo_pcm =
     \<lparr>format_tag = 1, channels = 2, samples_per_sec = 8000, bits_per_sample = 8,
      riff_data = [1, 2, 3, 4]\<rparr>"

definition stereo_ulaw :: riff_wave where
  "stereo_ulaw =
     \<lparr>format_tag = 7, channels = 2, samples_per_sec = 8000, bits_per_sample = 8,
      riff_data = [1, 2, 3, 4]\<rparr>"

definition zero_rate :: wave_read where
  "zero_rate = pcm 0 [0x01, 0x02]"

definition batch_args :: "string list \<Rightarrow> string cli_args" where
  "batch_args paths =
     \<lparr>files = paths, output_dir = None, verbose = False, max_seconds = MAX_SECONDS\<rparr>"

definition missing_second :: "string world" where
  "missing_second = disk [(''a.wav'', WavFile three_frames), (''c.wav'', WavFile three_frames)]"

definition one_file :: "string world" where
  "one_file = disk [(''a.wav'', WavFile three_frames)]"

text \<open>
  The matches that the extraction loop keeps, the header file it writes for one of them,
  and an input with one array of data and one placeholder.
\<close>

definition kept :: "(string \<times> string) list \<Rightarrow> (string \<times> string) list" where
  "kept matches = filter (\<lambda>(sample_name, sample_data). \<not> is_skipped (clean sample_data)) matches"

definition header_file :: "string \<times> string \<Rightarrow> string \<times> string" where
  "header_file m = (fst m @ ''.h'', header_content (fst m) (formatted_data (clean (snd m))))"

definition sample1_data :: string where
  "sample1_data = newline @ ''    0x00, 0x01, /* two */ 0x02,'' @ newline @ ''    0x03'' @ newline"

definition sample2_data :: string where
  "sample2_data = newline @ ''    // Placeholder data'' @ newline"

definition example_blob :: string where
  "example_blob =
     ''const uint8_t sample1[] PROGMEM = {'' @ sample1_data @ ''};'' @ newline
     @ newline
     @ ''const uint8_t sample2[] PROGMEM = {'' @ sample2_data @ ''};'' @ newline"

definition twenty_entries :: string where
  "twenty_entries =
     ''0x00, 0x01, 0x02, 0x03, 0x04, 0x05, 0x06, 0x07, 0x08, 0x09, 0x0A, 0x0B, 0x0C, 0x0D, 0x0E, 0x0F, 0x10, 0x11, 0x12, 0x13''"

text \<open>
  An entry of a cleaned payload: not empty, without comma and without white space.
  Twenty of them as a list, as a payload laid out over three lines, with bare commas,
  and with a comma after the last entry.
\<close>

definition is_entry :: "string \<Rightarrow> bool" where
  "is_entry e = (e \<noteq> [] \<and> list_all (\<lambda>c. c \<noteq> CHR '','' \<and> \<not> is_space c) e)"

definition twenty_list :: "string list" where
  "twenty_list =
     [''0x00'', ''0x01'', ''0x02'', ''0x03'', ''0x04'', ''0x05'', ''0x06'', ''0x07'', ''0x08'', ''0x09'',
      ''0x0A'', ''0x0B'', ''0x0C'', ''0x0D'', ''0x0E'', ''0x0F'', ''0x10'', ''0x11'', ''0x12'', ''0x13'']"

definition raw_twenty :: string where
  "raw_twenty =
     newline @ ''    0x00, 0x01, 0x02, 0x03, 0x04, 0x05, 0x06, 0x07,'' @ newline
     @ ''    0x08, 0x09, 0x0A, 0x0B, 0x0C, 0x0D, 0x0E, 0x0F,'' @ newline
     @ ''    0x10, 0x11, 0x12, 0x13'' @ newline"

definition bare_twenty :: string where
  "bare_twenty =
     ''0x00,0x01,0x02,0x03,0x04,0x05,0x06,0x07,0x08,0x09,0x0A,0x0B,0x0C,0x0D,0x0E,0x0F,0x10,0x11,0x12,0x13''"

definition trailing_twenty :: string where
  "trailing_twenty = twenty_entries @ '',''"

section \<open>Properties of the hex encoder\<close>

lemma format_02X_two:
  assumes "n < 256"
  shows "format_02X n = [hex_digit (n div 16), hex_digit (n mod 16)]"
proof (cases "n < 16")
  case True
  then show ?thesis
    by (simp add: format_02X_def zero_pad_def to_hex_upper.simps [of n] hex_digit_def)
next
  case False
  with assms have "n div 16 < 16" by simp
  with False show ?thesis
    by (simp add: format_02X_def zero_pad_def to_hex_upper.simps [of n]
        to_hex_upper.simps [of "n div 16"])
qed

lemma format_byte_shape:
  "format_byte b = [CHR ''0'', CHR ''x'', hex_digit (unat b div 16), hex_digit (unat b mod 16)]"
proof -
  have "unat b < 256" using unsigned_less [of b] by simp
  then show ?thesis by (simp add: format_byte_def format_02X_two)
qed

lemma hex_digit_upper: "d < 16 \<Longrightarrow> is_upper_hex (hex_digit d)"
  unfolding is_upper_hex_def hex_digit_def by (rule nth_mem) simp

lemma byte_digits_upper:
  "is_upper_hex (hex_digit (unat (b :: byte) div 16)) \<and> is_upper_hex (hex_digit (unat b mod 16))"
proof -
  have "unat b < 256" using unsigned_less [of b] by simp
  then have "unat b div 16 < 16" by simp
  then show ?thesis by (simp add: hex_digit_upper)
qed

lemma hex_line_Nil: "hex_line [] = []"
  by (simp add: hex_line_def)

lemma hex_line_single: "hex_line [b] = format_byte b"
  by (simp add: hex_line_def)

lemma hex_line_Cons2: "hex_line (b # c # bs) = format_byte b @ '','' @ hex_line (c # bs)"
  by (simp add: hex_line_def)

lemma length_format_byte: "length (format_byte b) = 4"
  by (simp add: format_byte_shape)

lemma length_hex_line: "length (hex_line raw) = 5 * length raw - 1"
proof (induction raw rule: induct_list012)
  case 1 show ?case by (simp add: hex_line_Nil)
next
  case (2 b) show ?case by (simp add: hex_line_single length_format_byte)
next
  case (3 b c bs)
  then show ?case by (simp add: hex_line_Cons2 length_format_byte)
qed

lemma hex_line_entry:
  "i < length raw \<Longrightarrow> take 4 (drop (5 * i) (hex_line raw)) = format_byte (raw ! i)"
proof (induction raw arbitrary: i rule: induct_list012)
  case 1 then show ?case by simp
next
  case (2 b) then show ?case by (simp add: hex_line_single length_format_byte)
next
  case (3 b c bs)
  show ?case
  proof (cases i)
    case 0
    then show ?thesis by (simp add: hex_line_Cons2 length_format_byte)
  next
    case (Suc j)
    with 3 have "take 4 (drop (5 * j) (hex_line (c # bs))) = format_byte ((c # bs) ! j)"
      by simp
    with Suc show ?thesis
      by (simp add: hex_line_Cons2 length_format_byte)
  qed
qed

lemma hex_line_comma:
  "Suc i < length raw \<Longrightarrow> hex_line raw ! (5 * i + 4) = CHR '',''"
proof (induction raw arbitrary: i rule: induct_list012)
  case 1 then show ?case by simp
next
  case (2 b) then show ?case by simp
next
  case (3 b c bs)
  show ?case
  proof (cases i)
    case 0
    then show ?thesis by (simp add: hex_line_Cons2 nth_append length_format_byte)
  next
    case (Suc j)
    with 3 have "hex_line (c # bs) ! (5 * j + 4) = CHR '',''" by simp
    with Suc show ?thesis
      by (simp add: hex_line_Cons2 nth_append length_format_byte add.commute)
  qed
qed

lemma upper_hex_not_separator: "is_upper_hex c \<Longrightarrow> c \<noteq> CHR '',''"
proof
  assume "is_upper_hex c" and "c = CHR '',''"
  then have "is_upper_hex (CHR '','')" by simp
  then show False by (simp add: is_upper_hex_def)
qed

lemma zero_upper_hex: "is_upper_hex (CHR ''0'')"
  by (simp add: is_upper_hex_def)

lemma set_format_byte:
  "c \<in> set (format_byte b) \<Longrightarrow> c = CHR ''x'' \<or> is_upper_hex c"
  using byte_digits_upper [of b] zero_upper_hex by (auto simp: format_byte_shape)

lemma set_hex_line:
  "c \<in> set (hex_line raw) \<Longrightarrow> c = CHR '','' \<or> c = CHR ''x'' \<or> is_upper_hex c"
proof (induction raw rule: induct_list012)
  case 1 then show ?case by (simp add: hex_line_Nil)
next
  case (2 b)
  then have "c \<in> set (format_byte b)" by (simp add: hex_line_single)
  then show ?case using set_format_byte [of c b] by blast
next
  case (3 b d bs)
  from 3(3) have "c \<in> set (format_byte b) \<or> c = CHR '','' \<or> c \<in> set (hex_line (d # bs))"
    by (auto simp: hex_line_Cons2)
  then show ?case using set_format_byte [of c b] 3(2) by blast
qed

lemma hex_line_no_line_break: "CHR 0x0A \<notin> set (hex_line raw) \<and> CHR 0x0D \<notin> set (hex_line raw)"
proof -
  have "\<not> is_upper_hex (CHR 0x0A)" "\<not> is_upper_hex (CHR 0x0D)"
    by (simp_all add: is_upper_hex_def)
  then show ?thesis
    using set_hex_line [of "CHR 0x0A" raw] set_hex_line [of "CHR 0x0D" raw] by auto
qed

lemma last_hex_line:
  "raw \<noteq> [] \<Longrightarrow> last (hex_line raw) = hex_digit (unat (last raw) mod 16)"
proof (induction raw rule: induct_list012)
  case 1 then show ?case by simp
next
  case (2 b) show ?case by (simp add: hex_line_single format_byte_shape)
next
  case (3 b c bs)
  have "hex_line (c # bs) \<noteq> []"
    using length_hex_line [of "c # bs"] by auto
  with 3 show ?case by (simp add: hex_line_Cons2)
qed

lemma hex_line_no_trailing_comma: "raw \<noteq> [] \<Longrightarrow> last (hex_line raw) \<noteq> CHR '',''"
  using byte_digits_upper [of "last raw"] upper_hex_not_separator
  by (auto simp: last_hex_line)

text \<open>
  C1 (as amended).  For every non-empty buffer the listing consists of one entry per
  byte, in order: entry \<open>i\<close> occupies the four characters from position \<open>5 * i\<close> and is
  \<open>0x\<close> followed by the two upper-case hexadecimal digits of the byte; every entry but
  the last is followed by one comma; there is no trailing comma and no line break;
  and the listing has \<open>5 * len(buffer) - 1\<close> characters (four per entry plus the
  \<open>len(buffer) - 1\<close> commas).
\<close>

theorem hex_listing_format:
  assumes "raw \<noteq> []"
  shows "length (hex_line raw) = 5 * length raw - 1
    \<and> (\<forall>i < length raw.
          take 4 (drop (5 * i) (hex_line raw))
            = [CHR ''0'', CHR ''x'', hex_digit (unat (raw ! i) div 16), hex_digit (unat (raw ! i) mod 16)]
          \<and> is_upper_hex (hex_digit (unat (raw ! i) div 16))
          \<and> is_upper_hex (hex_digit (unat (raw ! i) mod 16)))
    \<and> (\<forall>i. Suc i < length raw \<longrightarrow> hex_line raw ! (5 * i + 4) = CHR '','')
    \<and> last (hex_line raw) \<noteq> CHR '',''
    \<and> CHR 0x0A \<notin> set (hex_line raw) \<and> CHR 0x0D \<notin> set (hex_line raw)"
proof (intro conjI allI impI)
  show "length (hex_line raw) = 5 * length raw - 1" by (rule length_hex_line)
next
  fix i assume "i < length raw"
  then show "take 4 (drop (5 * i) (hex_line raw))
      = [CHR ''0'', CHR ''x'', hex_digit (unat (raw ! i) div 16), hex_digit (unat (raw ! i) mod 16)]"
    by (simp add: hex_line_entry format_byte_shape)
next
  fix i show "is_upper_hex (hex_digit (unat (raw ! i) div 16))"
    using byte_digits_upper [of "raw ! i"] by simp
next
  fix i show "is_upper_hex (hex_digit (unat (raw ! i) mod 16))"
    using byte_digits_upper [of "raw ! i"] by simp
next
  fix i assume "Suc i < length raw"
  then show "hex_line raw ! (5 * i + 4) = CHR '',''" by (rule hex_line_comma)
next
  show "last (hex_line raw) \<noteq> CHR '',''" using assms by (rule hex_line_no_trailing_comma)
next
  show "CHR 0x0A \<notin> set (hex_line raw)" using hex_line_no_line_break by simp
next
  show "CHR 0x0D \<notin> set (hex_line raw)" using hex_line_no_line_break by simp
qed

theorem hex_listing_format_witness:
  "hex_line [0x00, 0xAB, 0xFF] = ''0x00,0xAB,0xFF''
   \<and> length (hex_line [0x00, 0xAB, 0xFF]) = 14
   \<and> take 4 (drop 5 (hex_line [0x00, 0xAB, 0xFF])) = ''0xAB''
   \<and> hex_line [0x00, 0xAB, 0xFF] ! 9 = CHR '',''"
proof -
  have ne: "[0x00, 0xAB, 0xFF :: byte] \<noteq> []" by simp
  have e: "hex_line [0x00, 0xAB, 0xFF] = ''0x00,0xAB,0xFF''"
    by (simp add: hex_line_def format_byte_shape hex_digit_def)
  from hex_listing_format [OF ne] e show ?thesis by simp
qed

text \<open>
  C1 (as stated) fails: a buffer of one byte gives the four characters \<open>0x00\<close>,
  not \<open>4 * 1 - 1 = 3\<close>.
\<close>

theorem hex_listing_length_counterexample:
  "length (hex_line [0x00]) = 4 \<and> length (hex_line [0x00]) \<noteq> 4 * length [0x00 :: byte] - 1"
  by (simp add: hex_line_def format_byte_shape)


section \<open>Properties of the converters\<close>

lemmas run_defs = cli_process_file_def cli_out_path_def frames_to_read_def getnframes_def
  framesize_def readframes_def cli_report_def write_text_def emit_def hex_line_def
  format_byte_shape hex_digit_def world_of_def gui_process_file_def bail_def MAX_SECONDS_def
  getcomptype_def Let_def

lemmas example_defs = disk_def three_frames_def pcm_def simple_paths_def

lemma fs_emit [simp]: "fs (emit c m s) = fs s"
  by (simp add: emit_def)

lemma console_emit [simp]: "console (emit c m s) = console s @ [(c, m)]"
  by (simp add: emit_def)

lemma fs_write_text [simp]: "fs (write_text p t s) = (fs s)(p \<mapsto> NonWav t)"
  by (simp add: write_text_def)

lemma console_write_text [simp]: "console (write_text p t s) = console s"
  by (simp add: write_text_def)

lemma fs_cli_report [simp]:
  "fs (world_of (cli_report in_path out_path verb rate frames raw hexl s)) = fs s"
  by (simp add: cli_report_def world_of_def Let_def)

lemma cli_report_ok:
  "rate \<noteq> 0 \<or> \<not> verb \<Longrightarrow> \<exists>s'. cli_report in_path out_path verb rate frames raw hexl s = Inr s'"
  by (auto simp: cli_report_def Let_def)

lemma cli_process_file_pcm:
  assumes "fs s in_path = Some (WavFile w)" "mono_16bit_pcm w"
  shows "cli_process_file ops in_path odir verb secs s
    = cli_report in_path (cli_out_path ops in_path odir) verb (framerate w)
        (frames_to_read w secs) (readframes w (frames_to_read w secs))
        (hex_line (readframes w (frames_to_read w secs)))
        (write_text (cli_out_path ops in_path odir)
           (hex_line (readframes w (frames_to_read w secs))) s)"
  using assms by (simp add: cli_process_file_def mono_16bit_pcm_def Let_def)

lemma gui_process_file_pcm:
  assumes "fs s in_path = Some (WavFile w)" "mono_16bit_pcm w"
  shows "gui_process_file ops in_path s
    = Inr (emit InfoDialog
        (Wrote (length (readframes w (frames_to_read w MAX_SECONDS)))
               (length (hex_line (readframes w (frames_to_read w MAX_SECONDS))))
               (with_suffix_txt ops in_path))
        (write_text (with_suffix_txt ops in_path)
           (hex_line (readframes w (frames_to_read w MAX_SECONDS))) s))"
  using assms by (simp add: gui_process_file_def mono_16bit_pcm_def Let_def)

lemma framesize_pcm: "mono_16bit_pcm w \<Longrightarrow> framesize w = 2"
  by (simp add: framesize_def mono_16bit_pcm_def)

lemma readframes_pcm:
  assumes "mono_16bit_pcm w" "0 \<le> n" "n \<le> int (getnframes w)"
  shows "readframes w n = take (2 * nat n) (chunk w)" "length (readframes w n) = 2 * nat n"
proof -
  have fz: "framesize w = 2" using assms(1) by (rule framesize_pcm)
  show 1: "readframes w n = take (2 * nat n) (chunk w)"
  proof (cases "n = 0")
    case True then show ?thesis by (simp add: readframes_def)
  next
    case False
    with assms(2) have "nat (n * 2) = 2 * nat n" by (simp add: nat_mult_distrib)
    with False assms(2) show ?thesis by (simp add: readframes_def fz)
  qed
  from assms(3) have "nat n \<le> length (chunk w) div 2" by (simp add: getnframes_def fz)
  then have "2 * nat n \<le> length (chunk w)" by simp
  with 1 show "length (readframes w n) = 2 * nat n" by simp
qed

lemma format_byte_0xHH: "uppercase_0xHH (format_byte b)"
  using byte_digits_upper [of b] by (simp add: uppercase_0xHH_def format_byte_shape)

lemma entries_0xHH: "i < length raw \<Longrightarrow> uppercase_0xHH (entry i (hex_line raw))"
  by (simp add: entry_def hex_line_entry format_byte_0xHH)

lemma hex_line_chars:
  "int (length (hex_line raw)) = (if raw = [] then 0 else 5 * int (length raw) - 1)"
  by (cases raw) (simp_all add: length_hex_line hex_line_Nil)

lemma listing_of_frames:
  assumes "mono_16bit_pcm w" and "0 \<le> secs"
  defines "n \<equiv> min (int (framerate w) * secs) (int (getnframes w))"
  defines "raw \<equiv> readframes w (frames_to_read w secs)"
  shows "int (length raw) = 2 * n"
    and "int (length (hex_line raw)) = (if n = 0 then 0 else 10 * n - 1)"
    and "\<forall>i < length raw. uppercase_0xHH (entry i (hex_line raw))"
proof -
  have n: "frames_to_read w secs = n" by (simp add: frames_to_read_def n_def)
  have n0: "0 \<le> n" using assms(2) by (simp add: n_def)
  have nle: "n \<le> int (getnframes w)" by (simp add: n_def)
  have len: "length raw = 2 * nat n"
    unfolding raw_def n using assms(1) n0 nle by (rule readframes_pcm(2))
  with n0 show 1: "int (length raw) = 2 * n" by simp
  from 1 n0 have "raw = [] \<longleftrightarrow> n = 0" by (cases raw) auto
  with 1 show "int (length (hex_line raw)) = (if n = 0 then 0 else 10 * n - 1)"
    by (simp add: hex_line_chars)
  show "\<forall>i < length raw. uppercase_0xHH (entry i (hex_line raw))"
    by (simp add: entries_0xHH)
qed

lemma three_frames_pcm: "mono_16bit_pcm three_frames"
  by (simp add: mono_16bit_pcm_def three_frames_def pcm_def getcomptype_def)

text \<open>
  C2 (as amended).  For a mono, 16-bit, uncompressed input with frame rate \<open>rate\<close> and
  \<open>total_frames\<close> frames, and a non-negative bound \<open>max_seconds\<close> (the interactive
  converter's fixed 20 included), the file written holds the listing of
  \<open>2 * min(rate * max_seconds, total_frames)\<close> bytes, every entry an upper-case
  \<open>0xHH\<close>; it has \<open>10 * min(rate * max_seconds, total_frames) - 1\<close> characters, and
  none when that minimum is 0.
\<close>

theorem listing_length:
  assumes "fs s in_path = Some (WavFile w)" and "mono_16bit_pcm w"
  shows "(0 \<le> secs \<longrightarrow>
      (\<exists>raw. fs (world_of (cli_process_file ops in_path odir verb secs s)) (cli_out_path ops in_path odir)
                = Some (NonWav (hex_line raw))
         \<and> int (length raw) = 2 * min (int (framerate w) * secs) (int (getnframes w))
         \<and> int (length (hex_line raw))
              = (if min (int (framerate w) * secs) (int (getnframes w)) = 0 then 0
                 else 10 * min (int (framerate w) * secs) (int (getnframes w)) - 1)
         \<and> (\<forall>i < length raw. uppercase_0xHH (entry i (hex_line raw)))))
    \<and> (\<exists>raw. fs (world_of (gui_process_file ops in_path s)) (with_suffix_txt ops in_path)
                = Some (NonWav (hex_line raw))
         \<and> int (length raw) = 2 * min (int (framerate w) * MAX_SECONDS) (int (getnframes w))
         \<and> int (length (hex_line raw))
              = (if min (int (framerate w) * MAX_SECONDS) (int (getnframes w)) = 0 then 0
                 else 10 * min (int (framerate w) * MAX_SECONDS) (int (getnframes w)) - 1)
         \<and> (\<forall>i < length raw. uppercase_0xHH (entry i (hex_line raw))))"
proof (intro conjI impI)
  assume secs: "0 \<le> secs"
  let ?raw = "readframes w (frames_to_read w secs)"
  have "fs (world_of (cli_process_file ops in_path odir verb secs s)) (cli_out_path ops in_path odir)
      = Some (NonWav (hex_line ?raw))"
    by (simp add: cli_process_file_pcm [OF assms])
  with listing_of_frames [OF assms(2) secs] show "\<exists>raw.
      fs (world_of (cli_process_file ops in_path odir verb secs s)) (cli_out_path ops in_path odir)
              = Some (NonWav (hex_line raw))
       \<and> int (length raw) = 2 * min (int (framerate w) * secs) (int (getnframes w))
       \<and> int (length (hex_line raw))
            = (if min (int (framerate w) * secs) (int (getnframes w)) = 0 then 0
               else 10 * min (int (framerate w) * secs) (int (getnframes w)) - 1)
       \<and> (\<forall>i < length raw. uppercase_0xHH (entry i (hex_line raw)))"
    by blast
next
  let ?raw = "readframes w (frames_to_read w MAX_SECONDS)"
  have m: "0 \<le> MAX_SECONDS" by (simp add: MAX_SECONDS_def)
  have "fs (world_of (gui_process_file ops in_path s)) (with_suffix_txt ops in_path)
      = Some (NonWav (hex_line ?raw))"
    by (simp add: gui_process_file_pcm [OF assms] world_of_def)
  with listing_of_frames [OF assms(2) m] show "\<exists>raw.
      fs (world_of (gui_process_file ops in_path s)) (with_suffix_txt ops in_path)
              = Some (NonWav (hex_line raw))
       \<and> int (length raw) = 2 * min (int (framerate w) * MAX_SECONDS) (int (getnframes w))
       \<and> int (length (hex_line raw))
            = (if min (int (framerate w) * MAX_SECONDS) (int (getnframes w)) = 0 then 0
               else 10 * min (int (framerate w) * MAX_SECONDS) (int (getnframes w)) - 1)
       \<and> (\<forall>i < length raw. uppercase_0xHH (entry i (hex_line raw)))"
    by blast
qed

text \<open>
  A recording of three frames at one frame per second, cut to one second: two bytes,
  nine characters.
\<close>

theorem listing_length_witness:
  "fs (disk [(''a.wav'', WavFile three_frames)]) ''a.wav'' = Some (WavFile three_frames)
   \<and> mono_16bit_pcm three_frames \<and> (0::int) \<le> 1
   \<and> fs (world_of (cli_process_file simple_paths ''a.wav'' None False 1
            (disk [(''a.wav'', WavFile three_frames)]))) ''a.txt'' = Some (NonWav ''0x01,0x02'')
   \<and> (\<exists>raw. ''0x01,0x02'' = hex_line raw \<and> int (length raw) = 2
         \<and> (\<forall>i < length raw. uppercase_0xHH (entry i (hex_line raw))))"
proof -
  let ?s = "disk [(''a.wav'', WavFile three_frames)]"
  have a: "fs ?s ''a.wav'' = Some (WavFile three_frames)" by (simp add: disk_def)
  have run: "fs (world_of (cli_process_file simple_paths ''a.wav'' None False 1 ?s)) ''a.txt''
      = Some (NonWav ''0x01,0x02'')"
    by (simp add: run_defs example_defs)
  have out: "cli_out_path simple_paths ''a.wav'' None = ''a.txt''"
    by (simp add: cli_out_path_def simple_paths_def)
  have n: "min (int (framerate three_frames) * 1) (int (getnframes three_frames)) = 1"
    by (simp add: three_frames_def pcm_def getnframes_def framesize_def)
  from listing_length [OF a three_frames_pcm, of 1 simple_paths None False, THEN conjunct1]
  obtain raw where
    "fs (world_of (cli_process_file simple_paths ''a.wav'' None False 1 ?s)) ''a.txt''
       = Some (NonWav (hex_line raw))"
    "int (length raw) = 2"
    "\<forall>i < length raw. uppercase_0xHH (entry i (hex_line raw))"
    unfolding out n by auto
  with run have "''0x01,0x02'' = hex_line raw \<and> int (length raw) = 2
      \<and> (\<forall>i < length raw. uppercase_0xHH (entry i (hex_line raw)))"
    by simp
  then have "\<exists>raw. ''0x01,0x02'' = hex_line raw \<and> int (length raw) = 2
      \<and> (\<forall>i < length raw. uppercase_0xHH (entry i (hex_line raw)))" ..
  with a three_frames_pcm run show ?thesis by simp
qed

text \<open>
  C2 (as stated) fails on that input: the formula \<open>4 * min(rate * max_seconds,
  total_frames * 2) - 1\<close> gives 3, the listing has 9 characters.
\<close>

theorem listing_length_counterexample:
  "mono_16bit_pcm three_frames \<and> framerate three_frames = 1 \<and> getnframes three_frames = 3
   \<and> fs (world_of (cli_process_file simple_paths ''a.wav'' None False 1
            (disk [(''a.wav'', WavFile three_frames)]))) ''a.txt'' = Some (NonWav ''0x01,0x02'')
   \<and> int (length ''0x01,0x02'') \<noteq> 4 * min (1 * 1) (3 * 2) - 1"
proof -
  have "fs (world_of (cli_process_file simple_paths ''a.wav'' None False 1
            (disk [(''a.wav'', WavFile three_frames)]))) ''a.txt'' = Some (NonWav ''0x01,0x02'')"
    by (simp add: run_defs example_defs)
  moreover have "framerate three_frames = 1 \<and> getnframes three_frames = 3"
    by (simp add: three_frames_def pcm_def getnframes_def framesize_def)
  ultimately show ?thesis using three_frames_pcm by simp
qed

lemma chunk_prefix_read:
  assumes "mono_16bit_pcm w" "0 \<le> secs"
  shows "readframes w (frames_to_read w secs)
      = take (2 * nat (min (int (framerate w) * secs) (int (getnframes w)))) (chunk w)"
    and "2 * nat (min (int (framerate w) * secs) (int (getnframes w))) \<le> length (chunk w)"
proof -
  let ?n = "min (int (framerate w) * secs) (int (getnframes w))"
  have n0: "0 \<le> ?n" using assms(2) by simp
  have nle: "?n \<le> int (getnframes w)" by simp
  show "readframes w (frames_to_read w secs) = take (2 * nat ?n) (chunk w)"
    unfolding frames_to_read_def using assms(1) n0 nle by (rule readframes_pcm(1))
  have "length (readframes w ?n) = 2 * nat ?n"
    using assms(1) n0 nle by (rule readframes_pcm(2))
  moreover have "readframes w ?n = take (2 * nat ?n) (chunk w)"
    using assms(1) n0 nle by (rule readframes_pcm(1))
  ultimately show "2 * nat ?n \<le> length (chunk w)" by simp
qed

text \<open>
  C3 (as amended).  For a mono, 16-bit, uncompressed input and a non-negative bound
  \<open>max_seconds\<close> (the interactive converter's fixed 20 included), the listing written
  covers exactly the first \<open>min(frame_rate * max_seconds, total_frames)\<close> frames of the
  data chunk, two bytes each, all of them present in the chunk.  When \<open>total_frames\<close> is
  less than \<open>frame_rate * max_seconds\<close> the conversion returns normally and the listing
  covers the \<open>total_frames\<close> frames of the chunk and nothing else.
\<close>

theorem frames_read:
  assumes "fs s in_path = Some (WavFile w)" and "mono_16bit_pcm w"
  shows "(0 \<le> secs \<longrightarrow>
        fs (world_of (cli_process_file ops in_path odir verb secs s)) (cli_out_path ops in_path odir)
          = Some (NonWav (hex_line
              (take (2 * nat (min (int (framerate w) * secs) (int (getnframes w)))) (chunk w))))
      \<and> 2 * nat (min (int (framerate w) * secs) (int (getnframes w))) \<le> length (chunk w)
      \<and> (int (getnframes w) < int (framerate w) * secs \<longrightarrow>
           (\<exists>s'. cli_process_file ops in_path odir verb secs s = Inr s'
              \<and> fs s' (cli_out_path ops in_path odir)
                   = Some (NonWav (hex_line (take (2 * getnframes w) (chunk w)))))))
    \<and> fs (world_of (gui_process_file ops in_path s)) (with_suffix_txt ops in_path)
          = Some (NonWav (hex_line
              (take (2 * nat (min (int (framerate w) * MAX_SECONDS) (int (getnframes w)))) (chunk w))))
    \<and> 2 * nat (min (int (framerate w) * MAX_SECONDS) (int (getnframes w))) \<le> length (chunk w)
    \<and> (int (getnframes w) < int (framerate w) * MAX_SECONDS \<longrightarrow>
           (\<exists>s'. gui_process_file ops in_path s = Inr s'
              \<and> fs s' (with_suffix_txt ops in_path)
                   = Some (NonWav (hex_line (take (2 * getnframes w) (chunk w))))))"
proof (intro conjI impI)
  assume secs: "0 \<le> secs"
  show c1: "fs (world_of (cli_process_file ops in_path odir verb secs s)) (cli_out_path ops in_path odir)
          = Some (NonWav (hex_line
              (take (2 * nat (min (int (framerate w) * secs) (int (getnframes w)))) (chunk w))))"
    by (simp add: cli_process_file_pcm [OF assms] chunk_prefix_read(1) [OF assms(2) secs])
  show "2 * nat (min (int (framerate w) * secs) (int (getnframes w))) \<le> length (chunk w)"
    using assms(2) secs by (rule chunk_prefix_read(2))
  assume all: "int (getnframes w) < int (framerate w) * secs"
  then have m: "min (int (framerate w) * secs) (int (getnframes w)) = int (getnframes w)"
    by simp
  from all have "framerate w \<noteq> 0" by (cases "framerate w = 0") simp_all
  then have "framerate w \<noteq> 0 \<or> \<not> verb" by simp
  then have "\<exists>s'. cli_report in_path (cli_out_path ops in_path odir) verb (framerate w)
        (frames_to_read w secs) (readframes w (frames_to_read w secs))
        (hex_line (readframes w (frames_to_read w secs)))
        (write_text (cli_out_path ops in_path odir)
           (hex_line (readframes w (frames_to_read w secs))) s) = Inr s'"
    by (rule cli_report_ok)
  then obtain s' where s': "cli_process_file ops in_path odir verb secs s = Inr s'"
    unfolding cli_process_file_pcm [OF assms] by (rule exE)
  with c1 m have "fs s' (cli_out_path ops in_path odir)
      = Some (NonWav (hex_line (take (2 * getnframes w) (chunk w))))"
    by (simp add: world_of_def)
  with s' show "\<exists>s'. cli_process_file ops in_path odir verb secs s = Inr s'
      \<and> fs s' (cli_out_path ops in_path odir)
           = Some (NonWav (hex_line (take (2 * getnframes w) (chunk w))))"
    by blast
next
  have m0: "0 \<le> MAX_SECONDS" by (simp add: MAX_SECONDS_def)
  show g1: "fs (world_of (gui_process_file ops in_path s)) (with_suffix_txt ops in_path)
          = Some (NonWav (hex_line
              (take (2 * nat (min (int (framerate w) * MAX_SECONDS) (int (getnframes w)))) (chunk w))))"
    by (simp add: gui_process_file_pcm [OF assms] world_of_def chunk_prefix_read(1) [OF assms(2) m0])
  show "2 * nat (min (int (framerate w) * MAX_SECONDS) (int (getnframes w))) \<le> length (chunk w)"
    using assms(2) m0 by (rule chunk_prefix_read(2))
  assume all: "int (getnframes w) < int (framerate w) * MAX_SECONDS"
  then have m: "min (int (framerate w) * MAX_SECONDS) (int (getnframes w)) = int (getnframes w)"
    by simp
  obtain s' where s': "gui_process_file ops in_path s = Inr s'"
    by (simp add: gui_process_file_pcm [OF assms])
  with g1 m have "fs s' (with_suffix_txt ops in_path)
      = Some (NonWav (hex_line (take (2 * getnframes w) (chunk w))))"
    by (simp add: world_of_def)
  with s' show "\<exists>s'. gui_process_file ops in_path s = Inr s'
      \<and> fs s' (with_suffix_txt ops in_path)
           = Some (NonWav (hex_line (take (2 * getnframes w) (chunk w))))"
    by blast
qed

theorem frames_read_witness:
  "fs (disk [(''a.wav'', WavFile three_frames)]) ''a.wav'' = Some (WavFile three_frames)
   \<and> mono_16bit_pcm three_frames \<and> (0::int) \<le> 5
   \<and> int (getnframes three_frames) < int (framerate three_frames) * 5
   \<and> (\<exists>s'. cli_process_file simple_paths ''a.wav'' None True 5
              (disk [(''a.wav'', WavFile three_frames)]) = Inr s'
         \<and> fs s' ''a.txt'' = Some (NonWav ''0x01,0x02,0x03,0x04,0x05,0x06''))
   \<and> int (getnframes three_frames) < int (framerate three_frames) * MAX_SECONDS
   \<and> (\<exists>s'. gui_process_file simple_paths ''a.wav''
              (disk [(''a.wav'', WavFile three_frames)]) = Inr s'
         \<and> fs s' ''a.txt'' = Some (NonWav ''0x01,0x02,0x03,0x04,0x05,0x06''))"
proof -
  let ?s = "disk [(''a.wav'', WavFile three_frames)]"
  have a: "fs ?s ''a.wav'' = Some (WavFile three_frames)" by (simp add: disk_def)
  have out: "cli_out_path simple_paths ''a.wav'' None = ''a.txt''"
    "with_suffix_txt simple_paths ''a.wav'' = ''a.txt''"
    by (simp_all add: cli_out_path_def simple_paths_def)
  have n: "getnframes three_frames = 3" "framerate three_frames = 1"
    by (simp_all add: three_frames_def pcm_def getnframes_def framesize_def)
  have l: "hex_line (take (2 * 3) (chunk three_frames)) = ''0x01,0x02,0x03,0x04,0x05,0x06''"
    by (simp add: three_frames_def pcm_def hex_line_def format_byte_shape hex_digit_def)
  have g: "int (getnframes three_frames) < int (framerate three_frames) * MAX_SECONDS"
    by (simp add: n MAX_SECONDS_def)
  note t = frames_read [OF a three_frames_pcm, of 5 simple_paths None True]
  from t have "\<exists>s'. cli_process_file simple_paths ''a.wav'' None True 5 ?s = Inr s'
         \<and> fs s' ''a.txt'' = Some (NonWav ''0x01,0x02,0x03,0x04,0x05,0x06'')"
    unfolding out n l by simp
  moreover from t g have "\<exists>s'. gui_process_file simple_paths ''a.wav'' ?s = Inr s'
         \<and> fs s' ''a.txt'' = Some (NonWav ''0x01,0x02,0x03,0x04,0x05,0x06'')"
    unfolding out n l by blast
  ultimately show ?thesis using a three_frames_pcm n g by simp
qed

text \<open>
  C3 (as stated) fails for a negative bound, which the command line accepts: with
  \<open>--max-seconds -1\<close> the minimum is \<open>-1\<close>, \<open>readframes\<close> is asked for \<open>-1\<close> frames and
  returns the whole chunk, and the listing covers all three frames.
\<close>

theorem frames_read_counterexample:
  "mono_16bit_pcm three_frames
   \<and> min (int (framerate three_frames) * (- 1)) (int (getnframes three_frames)) = - 1
   \<and> fs (world_of (cli_process_file simple_paths ''a.wav'' None False (- 1)
            (disk [(''a.wav'', WavFile three_frames)]))) ''a.txt''
       = Some (NonWav (hex_line (chunk three_frames)))
   \<and> int (length (chunk three_frames) div 2) = 3"
proof -
  have "fs (world_of (cli_process_file simple_paths ''a.wav'' None False (- 1)
            (disk [(''a.wav'', WavFile three_frames)]))) ''a.txt''
       = Some (NonWav (hex_line (chunk three_frames)))"
    by (simp add: run_defs example_defs)
  moreover have "min (int (framerate three_frames) * (- 1)) (int (getnframes three_frames)) = - 1"
    by (simp add: three_frames_def pcm_def getnframes_def framesize_def)
  moreover have "int (length (chunk three_frames) div 2) = 3"
    by (simp add: three_frames_def pcm_def)
  ultimately show ?thesis using three_frames_pcm by simp
qed

lemma riff_file_accepted: "wave_open c = Inr w \<Longrightarrow> riff_file c = WavFile w"
  by (simp add: riff_file_def)

lemma wave_open_channels: "wave_open c = Inr w \<Longrightarrow> nchannels w = channels c"
  by (auto simp: wave_open_def split: if_splits)

lemma riff_file_compressed: "format_tag c \<noteq> 1 \<Longrightarrow> riff_file c = Rejected ''unknown format''"
  by (simp add: riff_file_def wave_open_def)

text \<open>
  C6 (as amended).  An input that the reader opens (format tag PCM) and whose channel
  count is not 1 is rejected with the stereo message and exit status 1 by both
  converters, whatever its sample width; nothing is written.  An input with another
  format tag never reaches the channel test, whatever its channel count: the reader
  raises, the command-line converter prints the generic processing error, the
  interactive one ends with a traceback, both with status 1.
\<close>

theorem stereo_rejected:
  assumes "fs s in_path = Some (riff_file c)"
  shows "((\<exists>w. wave_open c = Inr w) \<and> channels c \<noteq> 1 \<longrightarrow>
        cli_process_file ops in_path odir verb secs s = Inl (1, emit Stderr StereoNotSupported s)
        \<and> gui_process_file ops in_path s = Inl (1, emit ErrorDialog StereoNotSupported s))
    \<and> (format_tag c \<noteq> 1 \<longrightarrow>
        cli_process_file ops in_path odir verb secs s = Inl (1, emit Stderr (ErrorProcessing in_path) s)
        \<and> gui_process_file ops in_path s = Inl (1, emit Stderr Traceback s))"
proof (intro conjI impI)
  assume a: "(\<exists>w. wave_open c = Inr w) \<and> channels c \<noteq> 1"
  then obtain w where w: "wave_open c = Inr w" by blast
  with a have n: "nchannels w \<noteq> 1" by (simp add: wave_open_channels)
  from assms w have f: "fs s in_path = Some (WavFile w)" by (simp add: riff_file_accepted)
  from f n show "cli_process_file ops in_path odir verb secs s
      = Inl (1, emit Stderr StereoNotSupported s)"
    by (simp add: cli_process_file_def)
  from f n show "gui_process_file ops in_path s = Inl (1, emit ErrorDialog StereoNotSupported s)"
    by (simp add: gui_process_file_def bail_def)
next
  assume "format_tag c \<noteq> 1"
  with assms have f: "fs s in_path = Some (Rejected ''unknown format'')"
    by (simp add: riff_file_compressed)
  from f show "cli_process_file ops in_path odir verb secs s
      = Inl (1, emit Stderr (ErrorProcessing in_path) s)"
    by (simp add: cli_process_file_def)
  from f show "gui_process_file ops in_path s = Inl (1, emit Stderr Traceback s)"
    by (simp add: gui_process_file_def)
qed

theorem stereo_rejected_witness:
  "fs (disk [(''s.wav'', riff_file stereo_pcm), (''u.wav'', riff_file stereo_ulaw)]) ''s.wav''
     = Some (riff_file stereo_pcm)
   \<and> (\<exists>w. wave_open stereo_pcm = Inr w) \<and> channels stereo_pcm \<noteq> 1
   \<and> cli_process_file simple_paths ''s.wav'' None True 20
        (disk [(''s.wav'', riff_file stereo_pcm), (''u.wav'', riff_file stereo_ulaw)])
       = Inl (1, \<lparr>fs = map_of [(''s.wav'', riff_file stereo_pcm), (''u.wav'', riff_file stereo_ulaw)],
                  console = [(Stderr, StereoNotSupported)]\<rparr>)
   \<and> gui_process_file simple_paths ''s.wav''
        (disk [(''s.wav'', riff_file stereo_pcm), (''u.wav'', riff_file stereo_ulaw)])
       = Inl (1, \<lparr>fs = map_of [(''s.wav'', riff_file stereo_pcm), (''u.wav'', riff_file stereo_ulaw)],
                  console = [(ErrorDialog, StereoNotSupported)]\<rparr>)
   \<and> fs (disk [(''s.wav'', riff_file stereo_pcm), (''u.wav'', riff_file stereo_ulaw)]) ''u.wav''
     = Some (riff_file stereo_ulaw)
   \<and> format_tag stereo_ulaw \<noteq> 1
   \<and> cli_process_file simple_paths ''u.wav'' None True 20
        (disk [(''s.wav'', riff_file stereo_pcm), (''u.wav'', riff_file stereo_ulaw)])
       = Inl (1, \<lparr>fs = map_of [(''s.wav'', riff_file stereo_pcm), (''u.wav'', riff_file stereo_ulaw)],
                  console = [(Stderr, ErrorProcessing ''u.wav'')]\<rparr>)
   \<and> gui_process_file simple_paths ''u.wav''
        (disk [(''s.wav'', riff_file stereo_pcm), (''u.wav'', riff_file stereo_ulaw)])
       = Inl (1, \<lparr>fs = map_of [(''s.wav'', riff_file stereo_pcm), (''u.wav'', riff_file stereo_ulaw)],
                  console = [(Stderr, Traceback)]\<rparr>)"
proof -
  let ?s = "disk [(''s.wav'', riff_file stereo_pcm), (''u.wav'', riff_file stereo_ulaw)]"
  have a: "fs ?s ''s.wav'' = Some (riff_file stereo_pcm)" by (simp add: disk_def)
  have u: "fs ?s ''u.wav'' = Some (riff_file stereo_ulaw)" by (simp add: disk_def)
  have b: "(\<exists>w. wave_open stereo_pcm = Inr w) \<and> channels stereo_pcm \<noteq> 1"
    by (simp add: wave_open_def stereo_pcm_def)
  have t: "format_tag stereo_ulaw \<noteq> 1" by (simp add: stereo_ulaw_def)
  from stereo_rejected [OF a, of simple_paths None True 20] b
  have 1: "cli_process_file simple_paths ''s.wav'' None True 20 ?s
        = Inl (1, emit Stderr StereoNotSupported ?s)
      \<and> gui_process_file simple_paths ''s.wav'' ?s = Inl (1, emit ErrorDialog StereoNotSupported ?s)"
    by blast
  from stereo_rejected [OF u, of simple_paths None True 20] t
  have 2: "cli_process_file simple_paths ''u.wav'' None True 20 ?s
        = Inl (1, emit Stderr (ErrorProcessing ''u.wav'') ?s)
      \<and> gui_process_file simple_paths ''u.wav'' ?s = Inl (1, emit Stderr Traceback ?s)"
    by blast
  from 1 2 a u b t show ?thesis by (simp add: emit_def disk_def)
qed

text \<open>
  C6 (as stated) fails: a stereo \<open>mu\<close>-law file has channel count 2, but the reader
  rejects its format tag before the channel test, and the command-line converter ends
  with the generic processing error, not with the stereo message.
\<close>

theorem stereo_rejected_counterexample:
  "channels stereo_ulaw = 2
   \<and> riff_file stereo_ulaw = Rejected ''unknown format''
   \<and> cli_process_file simple_paths ''u.wav'' None False 20 (disk [(''u.wav'', riff_file stereo_ulaw)])
       = Inl (1, \<lparr>fs = map_of [(''u.wav'', Rejected ''unknown format'')],
                  console = [(Stderr, ErrorProcessing ''u.wav'')]\<rparr>)
   \<and> cli_process_file simple_paths ''u.wav'' None False 20 (disk [(''u.wav'', riff_file stereo_ulaw)])
       \<noteq> Inl (1, emit Stderr StereoNotSupported (disk [(''u.wav'', riff_file stereo_ulaw)]))"
  by (simp add: stereo_ulaw_def riff_file_def wave_open_def cli_process_file_def disk_def emit_def)

lemma validate_files_Cons_present:
  "fs s p \<noteq> None \<Longrightarrow>
     validate_files ops (p # ps) s
       = validate_files ops ps (if lacks_wav_suffix ops p then emit Stderr (NoWavExtension p) s else s)"
  by (cases "fs s p") simp_all

lemma validate_files_Inr:
  "validate_files ops ps s = Inr s' \<Longrightarrow> fs s' = fs s \<and> (\<forall>p \<in> set ps. fs s p \<noteq> None)"
proof (induction ps arbitrary: s)
  case Nil
  then show ?case by simp
next
  case (Cons p ps)
  have present: "fs s p \<noteq> None"
  proof
    assume "fs s p = None"
    with Cons.prems show False by simp
  qed
  let ?s1 = "if lacks_wav_suffix ops p then emit Stderr (NoWavExtension p) s else s"
  have fs1: "fs ?s1 = fs s" by simp
  from Cons.prems have "validate_files ops ps ?s1 = Inr s'"
    by (simp only: validate_files_Cons_present [OF present])
  from Cons.IH [OF this] have "fs s' = fs s" "\<forall>q \<in> set ps. fs s q \<noteq> None"
    unfolding fs1 by simp_all
  with present show ?case by simp
qed

lemma validate_files_Inl:
  "validate_files ops ps s = Inl (status, s') \<Longrightarrow>
     status = 1 \<and> fs s' = fs s
     \<and> (\<exists>msgs. console s' = console s @ msgs \<and> (\<forall>cm \<in> set msgs. fst cm = Stderr))"
proof (induction ps arbitrary: s)
  case Nil
  then show ?case by simp
next
  case (Cons p ps)
  show ?case
  proof (cases "fs s p = None")
    case True
    with Cons.prems show ?thesis by auto
  next
    case False
    let ?s1 = "if lacks_wav_suffix ops p then emit Stderr (NoWavExtension p) s else s"
    have fs1: "fs ?s1 = fs s" by simp
    have c1: "\<exists>pre. console ?s1 = console s @ pre \<and> (\<forall>cm \<in> set pre. fst cm = Stderr)"
      by simp
    from Cons.prems have "validate_files ops ps ?s1 = Inl (status, s')"
      by (simp only: validate_files_Cons_present [OF False])
    from Cons.IH [OF this] obtain msgs where
      r: "status = 1" "fs s' = fs ?s1" "console s' = console ?s1 @ msgs"
        "\<forall>cm \<in> set msgs. fst cm = Stderr"
      by blast
    from c1 obtain pre where pre: "console ?s1 = console s @ pre" "\<forall>cm \<in> set pre. fst cm = Stderr"
      by blast
    from r(3) pre(1) have "console s' = console s @ (pre @ msgs)" by simp
    moreover from r(4) pre(2) have "\<forall>cm \<in> set (pre @ msgs). fst cm = Stderr" by auto
    ultimately show ?thesis using r(1) r(2) fs1 by metis
  qed
qed

text \<open>
  C5.  When at least one path of a command-line batch does not exist, the run exits
  with status 1, the file system is exactly as before (no output is written for any
  file), and everything printed went to the error stream.
\<close>

theorem missing_file_blocks_batch:
  assumes "\<exists>p \<in> set (files args). fs s p = None"
  shows "\<exists>s' msgs. cli_main ops args s = Inl (1, s') \<and> fs s' = fs s
           \<and> console s' = console s @ msgs \<and> (\<forall>cm \<in> set msgs. fst cm = Stderr)"
proof (cases "length (files args) > MAX_FILES")
  case True
  then show ?thesis by (simp add: cli_main_def)
next
  case False
  show ?thesis
  proof (cases "validate_files ops (files args) s")
    case (Inl e)
    obtain status s' where e: "e = (status, s')" by (cases e)
    from validate_files_Inl [of ops "files args" s status s'] Inl e
    obtain msgs where "status = 1" "fs s' = fs s" "console s' = console s @ msgs"
      "\<forall>cm \<in> set msgs. fst cm = Stderr" by auto
    moreover from False Inl e have "cli_main ops args s = Inl (status, s')"
      by (simp add: cli_main_def)
    ultimately show ?thesis by blast
  next
    case (Inr s1)
    from validate_files_Inr [OF this] assms show ?thesis by blast
  qed
qed

theorem missing_file_blocks_batch_witness:
  "(\<exists>p \<in> set (files (batch_args [''a.wav'', ''b.wav'', ''c.wav''])). fs missing_second p = None)
   \<and> cli_main simple_paths (batch_args [''a.wav'', ''b.wav'', ''c.wav'']) missing_second
       = Inl (1, \<lparr>fs = fs missing_second, console = [(Stderr, FileNotFound ''b.wav'')]\<rparr>)"
proof -
  have h: "\<exists>p \<in> set (files (batch_args [''a.wav'', ''b.wav'', ''c.wav''])). fs missing_second p = None"
    by (simp add: batch_args_def missing_second_def disk_def)
  have run: "cli_main simple_paths (batch_args [''a.wav'', ''b.wav'', ''c.wav'']) missing_second
       = Inl (1, \<lparr>fs = fs missing_second, console = [(Stderr, FileNotFound ''b.wav'')]\<rparr>)"
    by (simp add: cli_main_def batch_args_def missing_second_def disk_def MAX_FILES_def
        simple_paths_def lower_def lower_char_def emit_def)
  from missing_file_blocks_batch [OF h, of simple_paths] h run show ?thesis by blast
qed

text \<open>
  C7.  A batch of more than \<open>MAX_FILES\<close> (18) inputs is refused at once: exit status 1,
  the limit message, and a state otherwise untouched.  The interactive converter does
  the same with an error dialog.
\<close>

theorem too_many_files:
  "(length (files args) > MAX_FILES \<longrightarrow>
      cli_main ops args s = Inl (1, emit Stderr (TooManyFiles (length (files args)) 18) s))
   \<and> (length in_paths > MAX_FILES \<longrightarrow>
      gui_main ops in_paths s = Inl (1, emit ErrorDialog (TooManyFiles (length in_paths) 18) s))"
  by (auto simp: cli_main_def gui_main_def bail_def MAX_FILES_def)

theorem too_many_files_witness:
  "length (files (batch_args (replicate 19 ''a.wav''))) > MAX_FILES
   \<and> cli_main simple_paths (batch_args (replicate 19 ''a.wav'')) (disk [(''a.wav'', WavFile three_frames)])
       = Inl (1, \<lparr>fs = map_of [(''a.wav'', WavFile three_frames)],
                  console = [(Stderr, TooManyFiles 19 18)]\<rparr>)
   \<and> gui_main simple_paths (replicate 19 ''a.wav'') (disk [(''a.wav'', WavFile three_frames)])
       = Inl (1, \<lparr>fs = map_of [(''a.wav'', WavFile three_frames)],
                  console = [(ErrorDialog, TooManyFiles 19 18)]\<rparr>)"
proof -
  have h: "length (files (batch_args (replicate 19 ''a.wav''))) > MAX_FILES"
    by (simp add: batch_args_def MAX_FILES_def)
  have g: "length (replicate 19 ''a.wav'') > MAX_FILES"
    by (simp add: MAX_FILES_def)
  have l: "length (files (batch_args (replicate 19 ''a.wav''))) = 19"
    by (simp add: batch_args_def)
  from too_many_files [of "batch_args (replicate 19 ''a.wav'')" simple_paths
      "disk [(''a.wav'', WavFile three_frames)]" "replicate 19 ''a.wav''"] h g
  have "cli_main simple_paths (batch_args (replicate 19 ''a.wav'')) (disk [(''a.wav'', WavFile three_frames)])
       = Inl (1, emit Stderr (TooManyFiles 19 18) (disk [(''a.wav'', WavFile three_frames)]))"
    and "gui_main simple_paths (replicate 19 ''a.wav'') (disk [(''a.wav'', WavFile three_frames)])
       = Inl (1, emit ErrorDialog (TooManyFiles 19 18) (disk [(''a.wav'', WavFile three_frames)]))"
    unfolding l by simp_all
  with h show ?thesis by (simp add: emit_def disk_def)
qed


lemma fs_cli_main_single:
  assumes "fs s p \<noteq> None"
  shows "\<exists>s1. fs s1 = fs s \<and>
     fs (world_of (cli_main ops \<lparr>files = [p], output_dir = odir, verbose = verb, max_seconds = secs\<rparr> s))
       = fs (world_of (cli_process_file ops p odir verb secs s1))"
proof -
  let ?s1 = "if lacks_wav_suffix ops p then emit Stderr (NoWavExtension p) s else s"
  let ?args = "\<lparr>files = [p], output_dir = odir, verbose = verb, max_seconds = secs\<rparr>"
  have v: "validate_files ops [p] s = Inr ?s1"
    using assms by (cases "fs s p") simp_all
  have m: "cli_main ops ?args s
      = (case cli_process_file ops p odir verb secs ?s1 of
           Inl e \<Rightarrow> Inl e
         | Inr s2 \<Rightarrow> Inr (emit Stdout (SuccessfullyProcessed 1) s2))"
    unfolding cli_main_def
    by (simp add: MAX_FILES_def v del: validate_files.simps split: sum.splits)
  have "fs (world_of (cli_main ops ?args s)) = fs (world_of (cli_process_file ops p odir verb secs ?s1))"
    unfolding m
    by (cases "cli_process_file ops p odir verb secs ?s1") (simp_all add: world_of_def)
  moreover have "fs ?s1 = fs s" by simp
  ultimately show ?thesis by blast
qed

text \<open>
  C9 (as amended).  Only the maximum seconds per file can be set on the command line:
  the frames read follow the \<open>max_seconds\<close> argument.  The file limit is 18 whatever the
  arguments are.  The interactive converter has both fixed, at 18 files and 20 seconds.
\<close>

theorem configuration_constants:
  "(length paths > 18 \<longrightarrow>
      cli_main ops \<lparr>files = paths, output_dir = odir, verbose = verb, max_seconds = secs\<rparr> s
        = Inl (1, emit Stderr (TooManyFiles (length paths) 18) s))
   \<and> (fs s p = Some (WavFile w) \<and> mono_16bit_pcm w \<longrightarrow>
      fs (world_of (cli_main ops \<lparr>files = [p], output_dir = odir, verbose = verb, max_seconds = secs\<rparr> s))
         (cli_out_path ops p odir)
        = Some (NonWav (hex_line (readframes w (min (int (framerate w) * secs) (int (getnframes w)))))))
   \<and> (length paths > 18 \<longrightarrow>
      gui_main ops paths s = Inl (1, emit ErrorDialog (TooManyFiles (length paths) 18) s))
   \<and> (fs s p = Some (WavFile w) \<and> mono_16bit_pcm w \<longrightarrow>
      fs (world_of (gui_main ops [p] s)) (with_suffix_txt ops p)
        = Some (NonWav (hex_line (readframes w (min (int (framerate w) * 20) (int (getnframes w)))))))"
proof (intro conjI impI)
  assume "length paths > 18"
  then show "cli_main ops \<lparr>files = paths, output_dir = odir, verbose = verb, max_seconds = secs\<rparr> s
        = Inl (1, emit Stderr (TooManyFiles (length paths) 18) s)"
    by (simp add: cli_main_def MAX_FILES_def)
next
  assume "length paths > 18"
  then show "gui_main ops paths s = Inl (1, emit ErrorDialog (TooManyFiles (length paths) 18) s)"
    by (auto simp: gui_main_def MAX_FILES_def bail_def)
next
  assume a: "fs s p = Some (WavFile w) \<and> mono_16bit_pcm w"
  then have "fs s p \<noteq> None" by simp
  from fs_cli_main_single [OF this, of ops odir verb secs] obtain s1 where
    s1: "fs s1 = fs s"
    "fs (world_of (cli_main ops \<lparr>files = [p], output_dir = odir, verbose = verb, max_seconds = secs\<rparr> s))
       = fs (world_of (cli_process_file ops p odir verb secs s1))"
    by blast
  from a s1(1) have "fs s1 p = Some (WavFile w)" by simp
  from cli_process_file_pcm [OF this, of ops odir verb secs] a
  have "fs (world_of (cli_process_file ops p odir verb secs s1)) (cli_out_path ops p odir)
      = Some (NonWav (hex_line (readframes w (frames_to_read w secs))))"
    by simp
  with s1(2) show "fs (world_of (cli_main ops \<lparr>files = [p], output_dir = odir, verbose = verb, max_seconds = secs\<rparr> s))
         (cli_out_path ops p odir)
        = Some (NonWav (hex_line (readframes w (min (int (framerate w) * secs) (int (getnframes w))))))"
    by (simp add: frames_to_read_def)
next
  assume a: "fs s p = Some (WavFile w) \<and> mono_16bit_pcm w"
  then have "gui_main ops [p] s = gui_process_file ops p s"
    by (cases "gui_process_file ops p s") (simp_all add: gui_main_def MAX_FILES_def)
  with a show "fs (world_of (gui_main ops [p] s)) (with_suffix_txt ops p)
        = Some (NonWav (hex_line (readframes w (min (int (framerate w) * 20) (int (getnframes w))))))"
    by (simp add: gui_process_file_pcm world_of_def frames_to_read_def MAX_SECONDS_def)
qed

theorem configuration_constants_witness:
  "length (replicate 19 ''a.wav'') > 18
   \<and> fs one_file ''a.wav'' = Some (WavFile three_frames) \<and> mono_16bit_pcm three_frames
   \<and> cli_main simple_paths
        \<lparr>files = replicate 19 ''a.wav'', output_dir = Some ''out'', verbose = True, max_seconds = 2\<rparr>
        one_file
       = Inl (1, emit Stderr (TooManyFiles 19 18) one_file)
   \<and> fs (world_of (cli_main simple_paths
        \<lparr>files = [''a.wav''], output_dir = Some ''out'', verbose = True, max_seconds = 2\<rparr> one_file))
        ''out/a.txt'' = Some (NonWav ''0x01,0x02,0x03,0x04'')
   \<and> gui_main simple_paths (replicate 19 ''a.wav'') one_file
       = Inl (1, emit ErrorDialog (TooManyFiles 19 18) one_file)
   \<and> fs (world_of (gui_main simple_paths [''a.wav''] one_file)) ''a.txt''
       = Some (NonWav ''0x01,0x02,0x03,0x04,0x05,0x06'')"
proof -
  have h1: "length (replicate 19 ''a.wav'') > 18" by simp
  have h2: "fs one_file ''a.wav'' = Some (WavFile three_frames) \<and> mono_16bit_pcm three_frames"
    using three_frames_pcm by (simp add: one_file_def disk_def)
  have o: "cli_out_path simple_paths ''a.wav'' (Some ''out'') = ''out/a.txt''"
    "with_suffix_txt simple_paths ''a.wav'' = ''a.txt''"
    by (simp_all add: cli_out_path_def simple_paths_def)
  have r2: "hex_line (readframes three_frames
        (min (int (framerate three_frames) * 2) (int (getnframes three_frames))))
      = ''0x01,0x02,0x03,0x04''"
    by (simp add: three_frames_def pcm_def getnframes_def framesize_def readframes_def
        hex_line_def format_byte_shape hex_digit_def)
  have r20: "hex_line (readframes three_frames
        (min (int (framerate three_frames) * 20) (int (getnframes three_frames))))
      = ''0x01,0x02,0x03,0x04,0x05,0x06''"
    by (simp add: three_frames_def pcm_def getnframes_def framesize_def readframes_def
        hex_line_def format_byte_shape hex_digit_def)
  have l: "length (replicate 19 ''a.wav'') = 19" by simp
  from configuration_constants [of "replicate 19 ''a.wav''" simple_paths "Some ''out''" True 2
      one_file "''a.wav''" three_frames] h1 h2
  show ?thesis unfolding o r2 r20 l by blast
qed

text \<open>
  C9 (as stated) fails: no command-line arguments let a batch of 19 files run.
\<close>

theorem file_limit_not_overridable:
  "\<not> (\<exists>(args :: string cli_args) s s'. length (files args) = 19 \<and> cli_main simple_paths args s = Inr s')"
  by (auto simp: cli_main_def MAX_FILES_def)


lemma zero_rate_pcm: "mono_16bit_pcm zero_rate"
  by (simp add: mono_16bit_pcm_def zero_rate_def pcm_def getcomptype_def)

lemma empty_buffer_converts:
  assumes "fs s in_path = Some (WavFile w)" and "mono_16bit_pcm w"
  shows "readframes w (frames_to_read w secs) = [] \<and> (framerate w \<noteq> 0 \<or> \<not> verb) \<longrightarrow>
      (\<exists>s'. cli_process_file ops in_path odir verb secs s = Inr s'
         \<and> fs s' (cli_out_path ops in_path odir) = Some (NonWav [])
         \<and> (Stdout, Wrote 0 0 (cli_out_path ops in_path odir)) \<in> set (console s'))"
    and "readframes w (frames_to_read w MAX_SECONDS) = [] \<longrightarrow>
      gui_process_file ops in_path s
        = Inr (emit InfoDialog (Wrote 0 0 (with_suffix_txt ops in_path))
                (write_text (with_suffix_txt ops in_path) [] s))"
proof -
  show "readframes w (frames_to_read w secs) = [] \<and> (framerate w \<noteq> 0 \<or> \<not> verb) \<longrightarrow>
      (\<exists>s'. cli_process_file ops in_path odir verb secs s = Inr s'
         \<and> fs s' (cli_out_path ops in_path odir) = Some (NonWav [])
         \<and> (Stdout, Wrote 0 0 (cli_out_path ops in_path odir)) \<in> set (console s'))"
    by (auto simp: cli_process_file_pcm [OF assms] cli_report_def hex_line_Nil Let_def)
  show "readframes w (frames_to_read w MAX_SECONDS) = [] \<longrightarrow>
      gui_process_file ops in_path s
        = Inr (emit InfoDialog (Wrote 0 0 (with_suffix_txt ops in_path))
                (write_text (with_suffix_txt ops in_path) [] s))"
    by (simp add: gui_process_file_pcm [OF assms] hex_line_Nil)
qed

text \<open>
  C10.  A mono 16-bit recording whose header gives a frame rate of 0 yields an empty
  buffer.  Without \<open>--verbose\<close> the command-line converter writes the empty file and
  reports success; with \<open>--verbose\<close> it writes the empty file, then fails on the
  duration \<open>frames / rate\<close> and exits with status 1.
\<close>

theorem zero_rate_verbose_fails:
  "mono_16bit_pcm zero_rate
   \<and> readframes zero_rate (frames_to_read zero_rate 20) = []
   \<and> cli_process_file simple_paths ''z.wav'' None True 20 (disk [(''z.wav'', WavFile zero_rate)])
       = Inl (1, \<lparr>fs = (map_of [(''z.wav'', WavFile zero_rate)])(''z.txt'' \<mapsto> NonWav []),
                  console = [(Stdout, Processed ''z.wav''), (Stdout, SampleRate 0),
                             (Stderr, UnexpectedError ''z.wav'')]\<rparr>)
   \<and> cli_process_file simple_paths ''z.wav'' None False 20 (disk [(''z.wav'', WavFile zero_rate)])
       = Inr \<lparr>fs = (map_of [(''z.wav'', WavFile zero_rate)])(''z.txt'' \<mapsto> NonWav []),
              console = [(Stdout, Wrote 0 0 ''z.txt'')]\<rparr>"
proof -
  have "readframes zero_rate (frames_to_read zero_rate 20) = []"
    by (simp add: zero_rate_def pcm_def readframes_def frames_to_read_def)
  moreover have "cli_process_file simple_paths ''z.wav'' None True 20 (disk [(''z.wav'', WavFile zero_rate)])
       = Inl (1, \<lparr>fs = (map_of [(''z.wav'', WavFile zero_rate)])(''z.txt'' \<mapsto> NonWav []),
                  console = [(Stdout, Processed ''z.wav''), (Stdout, SampleRate 0),
                             (Stderr, UnexpectedError ''z.wav'')]\<rparr>)"
    by (simp add: run_defs disk_def simple_paths_def zero_rate_def pcm_def)
  moreover have "cli_process_file simple_paths ''z.wav'' None False 20 (disk [(''z.wav'', WavFile zero_rate)])
       = Inr \<lparr>fs = (map_of [(''z.wav'', WavFile zero_rate)])(''z.txt'' \<mapsto> NonWav []),
              console = [(Stdout, Wrote 0 0 ''z.txt'')]\<rparr>"
    by (simp add: run_defs disk_def simple_paths_def zero_rate_def pcm_def)
  ultimately show ?thesis using zero_rate_pcm by simp
qed

section \<open>Properties of the header splitter\<close>

lemma split_entry:
  assumes "CHR '','' \<notin> set e"
  shows "split_comma_space acc (e @ '', '' @ rest) = (rev acc @ e) # split_comma_space [] rest"
    and "split_comma_space acc e = [rev acc @ e]"
  using assms
proof (induction e arbitrary: acc)
  case Nil
  { case 1 show ?case by simp }
  { case 2 show ?case by simp }
next
  case (Cons x xs)
  { case 1
    then have x: "x \<noteq> CHR '',''" and xs: "CHR '','' \<notin> set xs" by auto
    show ?case
    proof (cases xs)
      case Nil
      with x show ?thesis using Cons.IH(1) [of "x # acc"] by simp
    next
      case (Cons y ys)
      with x xs show ?thesis using Cons.IH(1) [of "x # acc"] by simp
    qed }
  { case 2
    then have x: "x \<noteq> CHR '',''" and xs: "CHR '','' \<notin> set xs" by auto
    show ?case
    proof (cases xs)
      case Nil
      then show ?thesis by simp
    next
      case (Cons y ys)
      with x xs show ?thesis using Cons.IH(2) [of "x # acc"] by simp
    qed }
qed

lemma split_join:
  "es \<noteq> [] \<Longrightarrow> \<forall>e \<in> set es. CHR '','' \<notin> set e \<Longrightarrow> split_comma_space [] (join '', '' es) = es"
proof (induction es rule: induct_list012)
  case 1 then show ?case by simp
next
  case (2 e) then show ?case by (simp add: split_entry(2))
next
  case (3 e e2 es)
  then have "split_comma_space [] (join '', '' (e2 # es)) = e2 # es" by simp
  moreover from 3 have "CHR '','' \<notin> set e" by simp
  ultimately show ?case using split_entry(1) [of e "[]" "join '', '' (e2 # es)"] by simp
qed

lemma entry_no_comma: "is_entry e \<Longrightarrow> CHR '','' \<notin> set e"
  by (auto simp: is_entry_def list_all_iff)

lemma is_space_newline: "is_space (CHR 0x0A)" "is_space (CHR '' '')"
  by (simp_all add: is_space_def)

lemma entry_no_space: "is_entry e \<Longrightarrow> CHR 0x0A \<notin> set e \<and> CHR '' '' \<notin> set e"
  using is_space_newline by (auto simp: is_entry_def list_all_iff)

lemma join_nonempty: "xs \<noteq> [] \<Longrightarrow> last xs \<noteq> [] \<Longrightarrow> join sep xs \<noteq> []"
proof (induction xs rule: induct_list012)
  case 1 then show ?case by simp
next
  case (2 x) then show ?case by simp
next
  case (3 x y ys)
  then have "join sep (y # ys) \<noteq> []" by simp
  then show ?case by simp
qed

lemma last_join:
  "xs \<noteq> [] \<Longrightarrow> last xs \<noteq> [] \<Longrightarrow> last (join sep xs) = last (last xs)"
proof (induction xs rule: induct_list012)
  case 1 then show ?case by simp
next
  case (2 x) then show ?case by simp
next
  case (3 x y ys)
  then have "last (join sep (y # ys)) = last (last (y # ys))" by simp
  moreover from 3 have "join sep (y # ys) \<noteq> []"
    using join_nonempty [of "y # ys" sep] by simp
  ultimately show ?case by simp
qed

lemma set_join: "set (join sep xs) \<subseteq> set sep \<union> \<Union> (set ` set xs)"
  by (induction xs rule: induct_list012) auto


lemma format_lines_twenty:
  assumes "length hex_values = 20"
  shows "format_lines 0 hex_values
    = [''    '' @ join '', '' (take 16 hex_values) @ '','',
       ''    '' @ join '', '' (drop 16 hex_values)]"
proof -
  have "format_lines 32 hex_values = []"
    using assms by (simp add: format_lines.simps [of 32 hex_values])
  then have "format_lines 16 hex_values = [''    '' @ join '', '' (drop 16 hex_values)]"
    using assms by (simp add: format_lines.simps [of 16 hex_values])
  then show ?thesis
    using assms by (simp add: format_lines.simps [of 0 hex_values])
qed

lemma line_no_break:
  assumes "\<forall>e \<in> set es. is_entry e"
  shows "CHR 0x0A \<notin> set (''    '' @ join '', '' es)"
proof
  assume "CHR 0x0A \<in> set (''    '' @ join '', '' es)"
  then have "CHR 0x0A \<in> set (join '', '' es)" by simp
  with set_join [of "'', ''" es] obtain e where "e \<in> set es" "CHR 0x0A \<in> set e" by auto
  with assms entry_no_space show False by blast
qed

text \<open>
  C8 (as amended).  A cleaned payload of exactly 20 entries, separated by a comma and
  one blank and with nothing after the last entry, is split into these 20 entries and
  reformatted into exactly two lines: the first holds entries 1 to 16 followed by a
  comma, the second holds the remaining 4 entries and does not end with a comma;
  neither contains a line break.
\<close>

theorem twenty_entries_two_lines:
  assumes "length es = 20" and "\<forall>e \<in> set es. is_entry e" and "cleaned_data = join '', '' es"
  shows "split_comma_space [] cleaned_data = es
    \<and> format_lines 0 (split_comma_space [] cleaned_data)
        = [''    '' @ join '', '' (take 16 es) @ '','', ''    '' @ join '', '' (drop 16 es)]
    \<and> formatted_data cleaned_data
        = ''    '' @ join '', '' (take 16 es) @ '',\<newline>'' @ ''    '' @ join '', '' (drop 16 es)
    \<and> length (take 16 es) = 16 \<and> length (drop 16 es) = 4
    \<and> last (''    '' @ join '', '' (drop 16 es)) \<noteq> CHR '',''
    \<and> CHR 0x0A \<notin> set (''    '' @ join '', '' (take 16 es) @ '','')
    \<and> CHR 0x0A \<notin> set (''    '' @ join '', '' (drop 16 es))"
proof -
  from assms(1) have ne: "es \<noteq> []" by auto
  from assms(2) have nc: "\<forall>e \<in> set es. CHR '','' \<notin> set e" by (simp add: entry_no_comma)
  have sp: "split_comma_space [] cleaned_data = es"
    unfolding assms(3) using ne nc by (rule split_join)
  have fl: "format_lines 0 es
      = [''    '' @ join '', '' (take 16 es) @ '','', ''    '' @ join '', '' (drop 16 es)]"
    using assms(1) by (rule format_lines_twenty)
  have dne: "drop 16 es \<noteq> []" using assms(1) by simp
  then have le: "last (drop 16 es) \<in> set es"
    by (metis in_set_dropD last_in_set)
  with assms(2) have "is_entry (last (drop 16 es))" by blast
  then have l1: "last (drop 16 es) \<noteq> []" and l2: "CHR '','' \<notin> set (last (drop 16 es))"
    by (simp_all add: is_entry_def entry_no_comma)
  from dne l1 have j: "join '', '' (drop 16 es) \<noteq> []" by (rule join_nonempty)
  from dne l1 have "last (join '', '' (drop 16 es)) = last (last (drop 16 es))"
    by (rule last_join)
  moreover have "last (last (drop 16 es)) \<noteq> CHR '',''"
  proof
    assume "last (last (drop 16 es)) = CHR '',''"
    with last_in_set [OF l1] have "CHR '','' \<in> set (last (drop 16 es))" by simp
    with l2 show False by simp
  qed
  ultimately have lc: "last (''    '' @ join '', '' (drop 16 es)) \<noteq> CHR '',''"
    using j by simp
  from assms(2) have "\<forall>e \<in> set (take 16 es). is_entry e" by (meson in_set_takeD)
  then have "CHR 0x0A \<notin> set (''    '' @ join '', '' (take 16 es))" by (rule line_no_break)
  then have n1: "CHR 0x0A \<notin> set (''    '' @ join '', '' (take 16 es) @ '','')" by simp
  from assms(2) have "\<forall>e \<in> set (drop 16 es). is_entry e" by (meson in_set_dropD)
  then have n2: "CHR 0x0A \<notin> set (''    '' @ join '', '' (drop 16 es))" by (rule line_no_break)
  from sp fl lc n1 n2 assms(1) show ?thesis
    by (simp add: formatted_data_def newline_def)
qed

lemma twenty_list_entries: "\<forall>e \<in> set twenty_list. is_entry e"
  by (simp add: twenty_list_def is_entry_def is_space_def)

lemma clean_raw_twenty: "clean raw_twenty = twenty_entries"
  by code_simp

lemma join_twenty_list: "join '', '' twenty_list = twenty_entries"
  by (simp add: twenty_list_def twenty_entries_def)

text \<open>
  A payload laid out over three lines, as in a header file, cleans to such a payload.
\<close>

theorem twenty_entries_two_lines_witness:
  "length twenty_list = 20 \<and> list_all is_entry twenty_list
   \<and> clean raw_twenty = join '', '' twenty_list
   \<and> formatted_data (clean raw_twenty)
      = ''    0x00, 0x01, 0x02, 0x03, 0x04, 0x05, 0x06, 0x07, 0x08, 0x09, 0x0A, 0x0B, 0x0C, 0x0D, 0x0E, 0x0F,\<newline>''
        @ ''    0x10, 0x11, 0x12, 0x13''"
proof -
  have h1: "length twenty_list = 20" by (simp add: twenty_list_def)
  have h3: "clean raw_twenty = join '', '' twenty_list"
    by (simp only: clean_raw_twenty join_twenty_list)
  have t: "join '', '' (take 16 twenty_list)
      = ''0x00, 0x01, 0x02, 0x03, 0x04, 0x05, 0x06, 0x07, 0x08, 0x09, 0x0A, 0x0B, 0x0C, 0x0D, 0x0E, 0x0F''"
    "join '', '' (drop 16 twenty_list) = ''0x10, 0x11, 0x12, 0x13''"
    by (simp_all add: twenty_list_def)
  from twenty_entries_two_lines [OF h1 twenty_list_entries h3]
  have "formatted_data (clean raw_twenty)
      = ''    '' @ join '', '' (take 16 twenty_list) @ '',\<newline>''
        @ ''    '' @ join '', '' (drop 16 twenty_list)"
    by (elim conjE)
  then have "formatted_data (clean raw_twenty)
      = ''    0x00, 0x01, 0x02, 0x03, 0x04, 0x05, 0x06, 0x07, 0x08, 0x09, 0x0A, 0x0B, 0x0C, 0x0D, 0x0E, 0x0F,\<newline>''
        @ ''    0x10, 0x11, 0x12, 0x13''"
    unfolding t by simp
  moreover have "list_all is_entry twenty_list"
    using twenty_list_entries by (simp only: list_all_iff)
  ultimately show ?thesis using h1 h3 by blast
qed

text \<open>
  C8 (as stated) fails.  Twenty entries separated by bare commas are not split at all
  and come out as a single line.  Twenty entries with a comma after the last one come
  out as two lines, but the second line ends with that comma.
\<close>

theorem twenty_entries_counterexample:
  "clean bare_twenty = bare_twenty
   \<and> formatted_data (clean bare_twenty) = ''    '' @ bare_twenty
   \<and> CHR 0x0A \<notin> set (formatted_data (clean bare_twenty))
   \<and> clean trailing_twenty = trailing_twenty
   \<and> length (split_comma_space [] (clean trailing_twenty)) = 20
   \<and> formatted_data (clean trailing_twenty)
      = ''    0x00, 0x01, 0x02, 0x03, 0x04, 0x05, 0x06, 0x07, 0x08, 0x09, 0x0A, 0x0B, 0x0C, 0x0D, 0x0E, 0x0F,\<newline>''
        @ ''    0x10, 0x11, 0x12, 0x13,''"
proof -
  have c1: "clean bare_twenty = bare_twenty" by code_simp
  have c2: "clean trailing_twenty = trailing_twenty" by code_simp
  have s1: "split_comma_space [] bare_twenty = [bare_twenty]"
    by (simp add: bare_twenty_def)
  have f1: "formatted_data bare_twenty = ''    '' @ bare_twenty"
    by (simp add: formatted_data_def s1 format_lines.simps [of 0] format_lines.simps [of 16])
  have n1: "CHR 0x0A \<notin> set (''    '' @ bare_twenty)"
    by (simp add: bare_twenty_def)
  have s2: "split_comma_space [] trailing_twenty
      = [''0x00'', ''0x01'', ''0x02'', ''0x03'', ''0x04'', ''0x05'', ''0x06'', ''0x07'', ''0x08'', ''0x09'',
         ''0x0A'', ''0x0B'', ''0x0C'', ''0x0D'', ''0x0E'', ''0x0F'', ''0x10'', ''0x11'', ''0x12'', ''0x13,'']"
    by (simp add: trailing_twenty_def twenty_entries_def)
  have f2: "formatted_data trailing_twenty
      = ''    0x00, 0x01, 0x02, 0x03, 0x04, 0x05, 0x06, 0x07, 0x08, 0x09, 0x0A, 0x0B, 0x0C, 0x0D, 0x0E, 0x0F,\<newline>''
        @ ''    0x10, 0x11, 0x12, 0x13,''"
    by (simp add: formatted_data_def s2 format_lines.simps [of 0] format_lines.simps [of 16]
        format_lines.simps [of 32] newline_def)
  show ?thesis
    unfolding c1 c2 using f1 f2 n1 s2 by simp
qed


lemma extract_loop_valid:
  "valid_samples (extract_loop ms st) = valid_samples st @ map fst (kept ms)"
  by (induction ms st rule: extract_loop.induct) (simp_all add: kept_def Let_def)

lemma extract_loop_written:
  "written (extract_loop ms st) = written st @ map header_file (kept ms)"
  by (induction ms st rule: extract_loop.induct) (simp_all add: kept_def header_file_def Let_def)

lemma extract_loop_printed:
  "printed (extract_loop ms st)
    = printed st @ map (\<lambda>(n, d). if is_skipped (clean d) then SkippingEmpty n else Created (n @ ''.h'')) ms"
  by (induction ms st rule: extract_loop.induct) (simp_all add: Let_def)

lemma extract_samples_fields:
  "valid_samples (extract_samples content) = map fst (kept (findall content))"
  "written (extract_samples content)
     = map header_file (kept (findall content))
       @ [(''samples.h'', master_content (map fst (kept (findall content))))]"
  "printed (extract_samples content)
     = FoundArrays (length (findall content))
       # map (\<lambda>(n, d). if is_skipped (clean d) then SkippingEmpty n else Created (n @ ''.h''))
           (findall content)
       @ [CreatedMaster ''samples.h'']"
  by (simp_all add: extract_samples_def Let_def extract_loop_valid extract_loop_written
      extract_loop_printed)

lemma entry_lines_from:
  "concat (map (\<lambda>(i, n). ''    '' @ f n
                  @ (if int i < int (k + length names) - 1 then '','' else []) @ newline)
               (enumerate k names))
   = (if names = [] then []
      else join '',\<newline>'' (map (\<lambda>n. ''    '' @ f n) names) @ ''\<newline>'')"
proof (induction names arbitrary: k rule: induct_list012)
  case 1 show ?case by simp
next
  case (2 x) show ?case by (simp add: newline_def)
next
  case (3 x y ys)
  have "concat (map (\<lambda>(i, n). ''    '' @ f n
                  @ (if int i < int (Suc k + length (y # ys)) - 1 then '','' else []) @ newline)
               (enumerate (Suc k) (y # ys)))
      = join '',\<newline>'' (map (\<lambda>n. ''    '' @ f n) (y # ys)) @ ''\<newline>''"
    using 3(2) [of "Suc k"] by simp
  then show ?case by (simp add: newline_def)
qed

lemma entry_lines_join:
  "entry_lines f names
    = (if names = [] then []
       else join '',\<newline>'' (map (\<lambda>n. ''    '' @ f n) names) @ ''\<newline>'')"
  unfolding entry_lines_def using entry_lines_from [of f 0 names] by simp


lemma header_content_text:
  "header_content n data
    = ''#ifndef '' @ upper n @ ''_H\<newline>''
      @ ''#define '' @ upper n @ ''_H\<newline>''
      @ ''\<newline>''
      @ ''#include <pgmspace.h>\<newline>''
      @ ''\<newline>''
      @ ''// Sample data for '' @ n @ ''\<newline>''
      @ ''const uint8_t '' @ n @ ''[] PROGMEM = {\<newline>''
      @ data
      @ ''\<newline>''
      @ ''};\<newline>''
      @ ''\<newline>''
      @ ''// Sample length in 16-bit units\<newline>''
      @ ''#define '' @ upper n @ ''_LEN ((uint32_t)(sizeof('' @ n @ '') / 2))\<newline>''
      @ ''\<newline>''
      @ ''#endif // '' @ upper n @ ''_H\<newline>''"
  by (simp add: header_content_def newline_def)

lemma master_content_text:
  "master_content names
    = ''#ifndef SAMPLES_H\<newline>''
      @ ''#define SAMPLES_H\<newline>''
      @ ''\<newline>''
      @ ''// Include all individual sample headers\<newline>''
      @ concat (map (\<lambda>n. ''#include '' @ [CHR 0x22] @ n @ ''.h'' @ [CHR 0x22] @ ''\<newline>'') names)
      @ ''\<newline>''
      @ ''// Array of sample pointers for easy access\<newline>''
      @ ''const uint8_t* const samples[] = {\<newline>''
      @ (if names = [] then []
         else join '',\<newline>'' (map (\<lambda>n. ''    '' @ n) names) @ ''\<newline>'')
      @ ''};\<newline>''
      @ ''\<newline>''
      @ ''// Array of sample lengths\<newline>''
      @ ''const uint16_t sample_lengths[] = {\<newline>''
      @ (if names = [] then []
         else join '',\<newline>'' (map (\<lambda>n. ''    '' @ upper n @ ''_LEN'') names) @ ''\<newline>'')
      @ ''};\<newline>''
      @ ''\<newline>''
      @ ''#define NUM_SAMPLES (sizeof(samples) / sizeof(samples[0]))\<newline>''
      @ ''\<newline>''
      @ ''#endif // SAMPLES_H\<newline>''"
  by (simp add: master_content_def include_lines_def entry_lines_join newline_def dquote_def)

lemma upper_sample1: "upper ''sample1'' = ''SAMPLE1''"
  by code_simp

text \<open>
  C4.  The names in the index and the header files written are exactly those of the
  matches that are not skipped, in order, and the text of every file is as given: the
  index includes each kept header, lists each kept array and each length macro once,
  separated by commas, and contains nothing else that depends on the input.  A match
  whose cleaned payload is empty or contains the word placeholder is not among the
  kept ones and gets a skip notice.  For an input with the two arrays \<open>sample1\<close> (kept)
  and \<open>sample2\<close> (placeholder), two files are written: the header \<open>sample1.h\<close> and an
  index whose three lists each hold the single entry for \<open>sample1\<close>.
\<close>

theorem placeholders_dropped:
  fixes content :: string
  defines "names \<equiv> map fst (kept (findall content))"
  shows "valid_samples (extract_samples content) = names
   \<and> written (extract_samples content)
       = map (\<lambda>(n, d). (n @ ''.h'',
            ''#ifndef '' @ upper n @ ''_H\<newline>''
              @ ''#define '' @ upper n @ ''_H\<newline>''
              @ ''\<newline>''
              @ ''#include <pgmspace.h>\<newline>''
              @ ''\<newline>''
              @ ''// Sample data for '' @ n @ ''\<newline>''
              @ ''const uint8_t '' @ n @ ''[] PROGMEM = {\<newline>''
              @ formatted_data (clean d)
              @ ''\<newline>''
              @ ''};\<newline>''
              @ ''\<newline>''
              @ ''// Sample length in 16-bit units\<newline>''
              @ ''#define '' @ upper n @ ''_LEN ((uint32_t)(sizeof('' @ n @ '') / 2))\<newline>''
              @ ''\<newline>''
              @ ''#endif // '' @ upper n @ ''_H\<newline>''))
           (kept (findall content))
         @ [(''samples.h'',
            ''#ifndef SAMPLES_H\<newline>''
              @ ''#define SAMPLES_H\<newline>''
              @ ''\<newline>''
              @ ''// Include all individual sample headers\<newline>''
              @ concat (map (\<lambda>n. ''#include '' @ [CHR 0x22] @ n @ ''.h'' @ [CHR 0x22] @ ''\<newline>'') names)
              @ ''\<newline>''
              @ ''// Array of sample pointers for easy access\<newline>''
              @ ''const uint8_t* const samples[] = {\<newline>''
              @ (if names = [] then []
                 else join '',\<newline>'' (map (\<lambda>n. ''    '' @ n) names) @ ''\<newline>'')
              @ ''};\<newline>''
              @ ''\<newline>''
              @ ''// Array of sample lengths\<newline>''
              @ ''const uint16_t sample_lengths[] = {\<newline>''
              @ (if names = [] then []
                 else join '',\<newline>'' (map (\<lambda>n. ''    '' @ upper n @ ''_LEN'') names) @ ''\<newline>'')
              @ ''};\<newline>''
              @ ''\<newline>''
              @ ''#define NUM_SAMPLES (sizeof(samples) / sizeof(samples[0]))\<newline>''
              @ ''\<newline>''
              @ ''#endif // SAMPLES_H\<newline>'')]
   \<and> (\<forall>m \<in> set (findall content).
         clean (snd m) = [] \<or> contains ''placeholder'' (lower (clean (snd m))) \<longrightarrow>
           m \<notin> set (kept (findall content))
           \<and> SkippingEmpty (fst m) \<in> set (printed (extract_samples content)))
   \<and> (findall content = [(''sample1'', d1), (''sample2'', d2)]
        \<and> \<not> is_skipped (clean d1) \<and> contains ''placeholder'' (lower (clean d2)) \<longrightarrow>
          valid_samples (extract_samples content) = [''sample1'']
          \<and> written (extract_samples content)
              = [(''sample1.h'',
                  ''#ifndef SAMPLE1_H\<newline>''
                  @ ''#define SAMPLE1_H\<newline>''
                  @ ''\<newline>''
                  @ ''#include <pgmspace.h>\<newline>''
                  @ ''\<newline>''
                  @ ''// Sample data for sample1\<newline>''
                  @ ''const uint8_t sample1[] PROGMEM = {\<newline>''
                  @ formatted_data (clean d1)
                  @ ''\<newline>''
                  @ ''};\<newline>''
                  @ ''\<newline>''
                  @ ''// Sample length in 16-bit units\<newline>''
                  @ ''#define SAMPLE1_LEN ((uint32_t)(sizeof(sample1) / 2))\<newline>''
                  @ ''\<newline>''
                  @ ''#endif // SAMPLE1_H\<newline>''),
                 (''samples.h'',
                  ''#ifndef SAMPLES_H\<newline>''
                  @ ''#define SAMPLES_H\<newline>''
                  @ ''\<newline>''
                  @ ''// Include all individual sample headers\<newline>''
                  @ ''#include '' @ [CHR 0x22] @ ''sample1.h'' @ [CHR 0x22] @ ''\<newline>''
                  @ ''\<newline>''
                  @ ''// Array of sample pointers for easy access\<newline>''
                  @ ''const uint8_t* const samples[] = {\<newline>''
                  @ ''    sample1\<newline>''
                  @ ''};\<newline>''
                  @ ''\<newline>''
                  @ ''// Array of sample lengths\<newline>''
                  @ ''const uint16_t sample_lengths[] = {\<newline>''
                  @ ''    SAMPLE1_LEN\<newline>''
                  @ ''};\<newline>''
                  @ ''\<newline>''
                  @ ''#define NUM_SAMPLES (sizeof(samples) / sizeof(samples[0]))\<newline>''
                  @ ''\<newline>''
                  @ ''#endif // SAMPLES_H\<newline>'')])"
proof (intro conjI ballI impI)
  have hf: "header_file
      = (\<lambda>(n, d). (n @ ''.h'',
            ''#ifndef '' @ upper n @ ''_H\<newline>''
              @ ''#define '' @ upper n @ ''_H\<newline>''
              @ ''\<newline>''
              @ ''#include <pgmspace.h>\<newline>''
              @ ''\<newline>''
              @ ''// Sample data for '' @ n @ ''\<newline>''
              @ ''const uint8_t '' @ n @ ''[] PROGMEM = {\<newline>''
              @ formatted_data (clean d)
              @ ''\<newline>''
              @ ''};\<newline>''
              @ ''\<newline>''
              @ ''// Sample length in 16-bit units\<newline>''
              @ ''#define '' @ upper n @ ''_LEN ((uint32_t)(sizeof('' @ n @ '') / 2))\<newline>''
              @ ''\<newline>''
              @ ''#endif // '' @ upper n @ ''_H\<newline>''))"
    by (rule ext) (simp add: header_file_def header_content_text split: prod.splits)
  show "valid_samples (extract_samples content) = names"
    unfolding names_def by (rule extract_samples_fields)
  show "written (extract_samples content)
       = map (\<lambda>(n, d). (n @ ''.h'',
            ''#ifndef '' @ upper n @ ''_H\<newline>''
              @ ''#define '' @ upper n @ ''_H\<newline>''
              @ ''\<newline>''
              @ ''#include <pgmspace.h>\<newline>''
              @ ''\<newline>''
              @ ''// Sample data for '' @ n @ ''\<newline>''
              @ ''const uint8_t '' @ n @ ''[] PROGMEM = {\<newline>''
              @ formatted_data (clean d)
              @ ''\<newline>''
              @ ''};\<newline>''
              @ ''\<newline>''
              @ ''// Sample length in 16-bit units\<newline>''
              @ ''#define '' @ upper n @ ''_LEN ((uint32_t)(sizeof('' @ n @ '') / 2))\<newline>''
              @ ''\<newline>''
              @ ''#endif // '' @ upper n @ ''_H\<newline>''))
           (kept (findall content))
         @ [(''samples.h'',
            ''#ifndef SAMPLES_H\<newline>''
              @ ''#define SAMPLES_H\<newline>''
              @ ''\<newline>''
              @ ''// Include all individual sample headers\<newline>''
              @ concat (map (\<lambda>n. ''#include '' @ [CHR 0x22] @ n @ ''.h'' @ [CHR 0x22] @ ''\<newline>'') names)
              @ ''\<newline>''
              @ ''// Array of sample pointers for easy access\<newline>''
              @ ''const uint8_t* const samples[] = {\<newline>''
              @ (if names = [] then []
                 else join '',\<newline>'' (map (\<lambda>n. ''    '' @ n) names) @ ''\<newline>'')
              @ ''};\<newline>''
              @ ''\<newline>''
              @ ''// Array of sample lengths\<newline>''
              @ ''const uint16_t sample_lengths[] = {\<newline>''
              @ (if names = [] then []
                 else join '',\<newline>'' (map (\<lambda>n. ''    '' @ upper n @ ''_LEN'') names) @ ''\<newline>'')
              @ ''};\<newline>''
              @ ''\<newline>''
              @ ''#define NUM_SAMPLES (sizeof(samples) / sizeof(samples[0]))\<newline>''
              @ ''\<newline>''
              @ ''#endif // SAMPLES_H\<newline>'')]"
    unfolding names_def extract_samples_fields(2) hf master_content_text ..
next
  fix m assume m: "m \<in> set (findall content)"
    and e: "clean (snd m) = [] \<or> contains ''placeholder'' (lower (clean (snd m)))"
  from e have sk: "is_skipped (clean (snd m))" by (auto simp: is_skipped_def)
  then show "m \<notin> set (kept (findall content))"
    by (cases m) (simp add: kept_def)
  let ?line = "\<lambda>(n, d). if is_skipped (clean d) then SkippingEmpty n else Created (n @ ''.h'')"
  from sk have "?line m = SkippingEmpty (fst m)"
    by (cases m) simp
  moreover from m have "?line m \<in> set (map ?line (findall content))"
    by (simp only: set_map) (rule imageI)
  ultimately have "SkippingEmpty (fst m) \<in> set (map ?line (findall content))"
    by simp
  then show "SkippingEmpty (fst m) \<in> set (printed (extract_samples content))"
    unfolding extract_samples_fields(3) by simp
next
  assume a: "findall content = [(''sample1'', d1), (''sample2'', d2)]
        \<and> \<not> is_skipped (clean d1) \<and> contains ''placeholder'' (lower (clean d2))"
  then have "is_skipped (clean d2)" by (simp add: is_skipped_def)
  with a have k: "kept (findall content) = [(''sample1'', d1)]"
    by (simp add: kept_def)
  show "valid_samples (extract_samples content) = [''sample1'']"
    by (simp add: extract_samples_fields(1) k)
  show "written (extract_samples content)
              = [(''sample1.h'',
                  ''#ifndef SAMPLE1_H\<newline>''
                  @ ''#define SAMPLE1_H\<newline>''
                  @ ''\<newline>''
                  @ ''#include <pgmspace.h>\<newline>''
                  @ ''\<newline>''
                  @ ''// Sample data for sample1\<newline>''
                  @ ''const uint8_t sample1[] PROGMEM = {\<newline>''
                  @ formatted_data (clean d1)
                  @ ''\<newline>''
                  @ ''};\<newline>''
                  @ ''\<newline>''
                  @ ''// Sample length in 16-bit units\<newline>''
                  @ ''#define SAMPLE1_LEN ((uint32_t)(sizeof(sample1) / 2))\<newline>''
                  @ ''\<newline>''
                  @ ''#endif // SAMPLE1_H\<newline>''),
                 (''samples.h'',
                  ''#ifndef SAMPLES_H\<newline>''
                  @ ''#define SAMPLES_H\<newline>''
                  @ ''\<newline>''
                  @ ''// Include all individual sample headers\<newline>''
                  @ ''#include '' @ [CHR 0x22] @ ''sample1.h'' @ [CHR 0x22] @ ''\<newline>''
                  @ ''\<newline>''
                  @ ''// Array of sample pointers for easy access\<newline>''
                  @ ''const uint8_t* const samples[] = {\<newline>''
                  @ ''    sample1\<newline>''
                  @ ''};\<newline>''
                  @ ''\<newline>''
                  @ ''// Array of sample lengths\<newline>''
                  @ ''const uint16_t sample_lengths[] = {\<newline>''
                  @ ''    SAMPLE1_LEN\<newline>''
                  @ ''};\<newline>''
                  @ ''\<newline>''
                  @ ''#define NUM_SAMPLES (sizeof(samples) / sizeof(samples[0]))\<newline>''
                  @ ''\<newline>''
                  @ ''#endif // SAMPLES_H\<newline>'')]"
    by (simp add: extract_samples_fields(2) k header_file_def header_content_text
        master_content_text upper_sample1)
qed

lemma findall_example:
  "findall example_blob = [(''sample1'', sample1_data), (''sample2'', sample2_data)]"
  by (simp add: example_blob_def sample1_data_def sample2_data_def newline_def match_array_def
      is_digit_def)

lemma clean_example:
  "clean sample1_data = ''0x00, 0x01, 0x02, 0x03''"
  "clean sample2_data = ''// Placeholder data''"
  by code_simp+

lemma skipped_example:
  "\<not> is_skipped ''0x00, 0x01, 0x02, 0x03''"
  "contains ''placeholder'' (lower ''// Placeholder data'')"
  by code_simp+

lemma formatted_example: "formatted_data ''0x00, 0x01, 0x02, 0x03'' = ''    0x00, 0x01, 0x02, 0x03''"
  by (simp add: formatted_data_def format_lines.simps [of 0] format_lines.simps [of 16])

theorem placeholders_dropped_witness:
  "findall example_blob = [(''sample1'', sample1_data), (''sample2'', sample2_data)]
   \<and> \<not> is_skipped (clean sample1_data)
   \<and> contains ''placeholder'' (lower (clean sample2_data))
   \<and> (''sample2'', sample2_data) \<in> set (findall example_blob)
   \<and> (''sample2'', sample2_data) \<notin> set (kept (findall example_blob))
   \<and> SkippingEmpty ''sample2'' \<in> set (printed (extract_samples example_blob))
   \<and> valid_samples (extract_samples example_blob) = [''sample1'']
   \<and> written (extract_samples example_blob)
       = [(''sample1.h'',
           ''#ifndef SAMPLE1_H\<newline>''
           @ ''#define SAMPLE1_H\<newline>''
           @ ''\<newline>''
           @ ''#include <pgmspace.h>\<newline>''
           @ ''\<newline>''
           @ ''// Sample data for sample1\<newline>''
           @ ''const uint8_t sample1[] PROGMEM = {\<newline>''
           @ ''    0x00, 0x01, 0x02, 0x03''
           @ ''\<newline>''
           @ ''};\<newline>''
           @ ''\<newline>''
           @ ''// Sample length in 16-bit units\<newline>''
           @ ''#define SAMPLE1_LEN ((uint32_t)(sizeof(sample1) / 2))\<newline>''
           @ ''\<newline>''
           @ ''#endif // SAMPLE1_H\<newline>''),
          (''samples.h'',
           ''#ifndef SAMPLES_H\<newline>''
           @ ''#define SAMPLES_H\<newline>''
           @ ''\<newline>''
           @ ''// Include all individual sample headers\<newline>''
           @ ''#include '' @ [CHR 0x22] @ ''sample1.h'' @ [CHR 0x22] @ ''\<newline>''
           @ ''\<newline>''
           @ ''// Array of sample pointers for easy access\<newline>''
           @ ''const uint8_t* const samples[] = {\<newline>''
           @ ''    sample1\<newline>''
           @ ''};\<newline>''
           @ ''\<newline>''
           @ ''// Array of sample lengths\<newline>''
           @ ''const uint16_t sample_lengths[] = {\<newline>''
           @ ''    SAMPLE1_LEN\<newline>''
           @ ''};\<newline>''
           @ ''\<newline>''
           @ ''#define NUM_SAMPLES (sizeof(samples) / sizeof(samples[0]))\<newline>''
           @ ''\<newline>''
           @ ''#endif // SAMPLES_H\<newline>'')]"
proof -
  have f: "findall example_blob = [(''sample1'', sample1_data), (''sample2'', sample2_data)]"
    by (rule findall_example)
  have k1: "\<not> is_skipped (clean sample1_data)"
    by (simp only: clean_example skipped_example not_False_eq_True)
  have k2: "contains ''placeholder'' (lower (clean sample2_data))"
    by (simp only: clean_example skipped_example)
  have m: "(''sample2'', sample2_data) \<in> set (findall example_blob)"
    by (simp add: f)
  note t = placeholders_dropped [of example_blob sample1_data sample2_data]
  from t have "\<forall>m \<in> set (findall example_blob).
         clean (snd m) = [] \<or> contains ''placeholder'' (lower (clean (snd m))) \<longrightarrow>
           m \<notin> set (kept (findall example_blob))
           \<and> SkippingEmpty (fst m) \<in> set (printed (extract_samples example_blob))"
    by (elim conjE)
  from this [rule_format, OF m] k2
  have d: "(''sample2'', sample2_data) \<notin> set (kept (findall example_blob))
      \<and> SkippingEmpty ''sample2'' \<in> set (printed (extract_samples example_blob))"
    by simp
  from t have "findall example_blob = [(''sample1'', sample1_data), (''sample2'', sample2_data)]
        \<and> \<not> is_skipped (clean sample1_data)
        \<and> contains ''placeholder'' (lower (clean sample2_data)) \<longrightarrow>
          valid_samples (extract_samples example_blob) = [''sample1'']
          \<and> written (extract_samples example_blob)
              = [(''sample1.h'',
                  ''#ifndef SAMPLE1_H\<newline>''
                  @ ''#define SAMPLE1_H\<newline>''
                  @ ''\<newline>''
                  @ ''#include <pgmspace.h>\<newline>''
                  @ ''\<newline>''
                  @ ''// Sample data for sample1\<newline>''
                  @ ''const uint8_t sample1[] PROGMEM = {\<newline>''
                  @ formatted_data (clean sample1_data)
                  @ ''\<newline>''
                  @ ''};\<newline>''
                  @ ''\<newline>''
                  @ ''// Sample length in 16-bit units\<newline>''
                  @ ''#define SAMPLE1_LEN ((uint32_t)(sizeof(sample1) / 2))\<newline>''
                  @ ''\<newline>''
                  @ ''#endif // SAMPLE1_H\<newline>''),
                 (''samples.h'',
                  ''#ifndef SAMPLES_H\<newline>''
                  @ ''#define SAMPLES_H\<newline>''
                  @ ''\<newline>''
                  @ ''// Include all individual sample headers\<newline>''
                  @ ''#include '' @ [CHR 0x22] @ ''sample1.h'' @ [CHR 0x22] @ ''\<newline>''
                  @ ''\<newline>''
                  @ ''// Array of sample pointers for easy access\<newline>''
                  @ ''const uint8_t* const samples[] = {\<newline>''
                  @ ''    sample1\<newline>''
                  @ ''};\<newline>''
                  @ ''\<newline>''
                  @ ''// Array of sample lengths\<newline>''
                  @ ''const uint16_t sample_lengths[] = {\<newline>''
                  @ ''    SAMPLE1_LEN\<newline>''
                  @ ''};\<newline>''
                  @ ''\<newline>''
                  @ ''#define NUM_SAMPLES (sizeof(samples) / sizeof(samples[0]))\<newline>''
                  @ ''\<newline>''
                  @ ''#endif // SAMPLES_H\<newline>'')]"
    by (elim conjE)
  with f k1 k2
  have w: "valid_samples (extract_samples example_blob) = [''sample1'']
          \<and> written (extract_samples example_blob)
              = [(''sample1.h'',
                  ''#ifndef SAMPLE1_H\<newline>''
                  @ ''#define SAMPLE1_H\<newline>''
                  @ ''\<newline>''
                  @ ''#include <pgmspace.h>\<newline>''
                  @ ''\<newline>''
                  @ ''// Sample data for sample1\<newline>''
                  @ ''const uint8_t sample1[] PROGMEM = {\<newline>''
                  @ formatted_data (clean sample1_data)
                  @ ''\<newline>''
                  @ ''};\<newline>''
                  @ ''\<newline>''
                  @ ''// Sample length in 16-bit units\<newline>''
                  @ ''#define SAMPLE1_LEN ((uint32_t)(sizeof(sample1) / 2))\<newline>''
                  @ ''\<newline>''
                  @ ''#endif // SAMPLE1_H\<newline>''),
                 (''samples.h'',
                  ''#ifndef SAMPLES_H\<newline>''
                  @ ''#define SAMPLES_H\<newline>''
                  @ ''\<newline>''
                  @ ''// Include all individual sample headers\<newline>''
                  @ ''#include '' @ [CHR 0x22] @ ''sample1.h'' @ [CHR 0x22] @ ''\<newline>''
                  @ ''\<newline>''
                  @ ''// Array of sample pointers for easy access\<newline>''
                  @ ''const uint8_t* const samples[] = {\<newline>''
                  @ ''    sample1\<newline>''
                  @ ''};\<newline>''
                  @ ''\<newline>''
                  @ ''// Array of sample lengths\<newline>''
                  @ ''const uint16_t sample_lengths[] = {\<newline>''
                  @ ''    SAMPLE1_LEN\<newline>''
                  @ ''};\<newline>''
                  @ ''\<newline>''
                  @ ''#define NUM_SAMPLES (sizeof(samples) / sizeof(samples[0]))\<newline>''
                  @ ''\<newline>''
                  @ ''#endif // SAMPLES_H\<newline>'')]"
    by blast
  from f k1 k2 m d w show ?thesis
    by (simp only: clean_example formatted_example) simp
qed


end
